theory Spec2Isabelle
  imports Complex_Main "HOL-Library.Log_Nat"
begin

section \<open>JavaScript values used by the datagrid\<close>

text \<open>
  Numbers are IEEE 754 doubles: \<open>NaN\<close>, the two infinities, and the finite doubles,
  each kept as the rational number it stands for. \<open>parseInt\<close> yields an integer or
  \<open>NaN\<close>, and the page count is \<open>Math.round\<close> of a quotient, which may be
  infinite or \<open>NaN\<close> when the divisor is zero. The sign of a zero is not kept.
\<close>

datatype jsnum = NaN | Fin rat | PosInf | NegInf

subsection \<open>Rounding to a double\<close>

text \<open>
  \<open>exponent q\<close> is the binary exponent of a rational that is not zero, the \<open>e\<close>
  with \<open>2 ^ e \<le> |q| < 2 ^ (e + 1)\<close>: the bit lengths of numerator and denominator
  give it up to one, and a comparison decides.
\<close>

definition exponent :: "rat \<Rightarrow> int" where
  "exponent q =
     (let n = fst (quotient_of \<bar>q\<bar>); d = snd (quotient_of \<bar>q\<bar>);
          k = bitlen n - bitlen d
      in if 2 powi k \<le> \<bar>q\<bar> then k else k - 1)"

definition round_half_even :: "rat \<Rightarrow> int" where
  "round_half_even m =
     (let f = \<lfloor>m\<rfloor>; r = m - of_int f
      in if r < 1 / 2 then f
         else if 1 / 2 < r then f + 1
         else if even f then f else f + 1)"

text \<open>
  \<open>to_double q\<close> is the double nearest to \<open>q\<close>, a tie going to the even
  significand: 53 significant bits, exponents from \<open>-1022\<close> (below it the spacing
  stays \<open>2 ^ -1074\<close>), and infinity from \<open>2 ^ 1024\<close> on. Every arithmetic result and
  every number read from text is rounded so.
\<close>

definition double_limit :: rat where
  "double_limit = 2 ^ 1024"

definition to_double :: "rat \<Rightarrow> jsnum" where
  "to_double q =
     (if q = 0 then Fin 0
      else
        (let e = max (exponent q) (- 1022);
             ulp = 2 powi (e - 52);
             x = of_int (round_half_even (q / ulp)) * ulp
         in if double_limit \<le> x then PosInf
            else if x \<le> - double_limit then NegInf
            else Fin x))"

text \<open>
  The other values a request parameter can hold. \<open>Inherited n\<close> is the member
  \<open>n\<close> that a plain object inherits from \<open>Object.prototype\<close>: looking up
  \<open>replacementSorts[''toString'']\<close> finds it.
\<close>

datatype jsval = Undefined | Null | Str string | Inherited string

datatype exn = TypeError | SyntaxError

definition object_prototype_members :: "string list" where
  "object_prototype_members =
     [''constructor'', ''__defineGetter__'', ''__defineSetter__'', ''hasOwnProperty'',
      ''__lookupGetter__'', ''__lookupSetter__'', ''isPrototypeOf'',
      ''propertyIsEnumerable'', ''toString'', ''valueOf'', ''__proto__'',
      ''toLocaleString'']"

text \<open>
  The text of an inherited member, as \<open>String\<close> gives it: the prototype object itself
  for \<open>__proto__\<close>, a native function otherwise (engines differ in its white space
  only).
\<close>

definition native_text :: "string \<Rightarrow> string" where
  "native_text n =
     (if n = ''__proto__'' then ''[object Object]''
      else ''function '' @ (if n = ''constructor'' then ''Object'' else n)
             @ ''() { [native code] }'')"

fun to_string :: "jsval \<Rightarrow> string" where
  "to_string Undefined = ''undefined''"
| "to_string Null = ''null''"
| "to_string (Str s) = s"
| "to_string (Inherited n) = native_text n"

text \<open>\<open>el.getAttribute(name)\<close>: the attribute's text, or \<open>null\<close>.\<close>

fun getAttribute :: "string option \<Rightarrow> jsval" where
  "getAttribute None = Null"
| "getAttribute (Some s) = Str s"

text \<open>\<open>if (search)\<close> on a string or \<open>null\<close>: true for a non-empty string.\<close>

fun truthy :: "string option \<Rightarrow> bool" where
  "truthy None = False"
| "truthy (Some s) = (s \<noteq> [])"

subsection \<open>parseInt\<close>

text \<open>
  A \<open>char\<close> stands for the UTF-16 code unit of the same number, so the strings of the
  model are the texts over U+0000 to U+00FF.

  \<open>parseInt(string)\<close> with no radix: leading white space is skipped (of the code
  units at hand: tab, line feed, vertical tab, form feed, carriage return, space and
  no-break space), a sign is read, a \<open>0x\<close> prefix selects radix 16, and the longest
  prefix of digits is the number, rounded to a double; no digit at all gives \<open>NaN\<close>.
\<close>

definition StrWhiteSpaceChar :: "char \<Rightarrow> bool" where
  "StrWhiteSpaceChar c \<longleftrightarrow>
     c = CHR '' '' \<or> c = CHR 0x09 \<or> c = CHR 0x0A \<or> c = CHR 0x0B \<or> c = CHR 0x0C
     \<or> c = CHR 0x0D \<or> c = CHR 0xA0"

fun index_of :: "char \<Rightarrow> string \<Rightarrow> nat option" where
  "index_of c [] = None"
| "index_of c (d # ds) = (if c = d then Some 0 else map_option Suc (index_of c ds))"

definition digit_of :: "nat \<Rightarrow> char \<Rightarrow> nat option" where
  "digit_of radix c =
     (case index_of c ''0123456789abcdef'' of
        Some d \<Rightarrow> if d < radix then Some d else None
      | None \<Rightarrow>
          (case index_of c ''ABCDEF'' of
             Some d \<Rightarrow> if d + 10 < radix then Some (d + 10) else None
           | None \<Rightarrow> None))"

fun digits_prefix :: "nat \<Rightarrow> string \<Rightarrow> nat list" where
  "digits_prefix radix [] = []"
| "digits_prefix radix (c # cs) =
     (case digit_of radix c of None \<Rightarrow> [] | Some d \<Rightarrow> d # digits_prefix radix cs)"

definition digits_number :: "nat \<Rightarrow> nat list \<Rightarrow> nat" where
  "digits_number radix ds = foldl (\<lambda>a d. a * radix + d) 0 ds"

definition parseInt :: "string \<Rightarrow> jsnum" where
  "parseInt s =
     (let s1 = dropWhile StrWhiteSpaceChar s;
          neg = (case s1 of [] \<Rightarrow> False | c # _ \<Rightarrow> c = CHR ''-'');
          s2 = (case s1 of [] \<Rightarrow> s1
                | c # r \<Rightarrow> if c = CHR ''-'' \<or> c = CHR ''+'' then r else s1);
          hex = (case s2 of a # b # _ \<Rightarrow> a = CHR ''0'' \<and> (b = CHR ''x'' \<or> b = CHR ''X'')
                 | _ \<Rightarrow> False);
          radix = (if hex then 16 else 10);
          s3 = (if hex then drop 2 s2 else s2);
          ds = digits_prefix radix s3
      in if ds = [] then NaN
         else to_double (of_int ((if neg then - 1 else 1) * int (digits_number radix ds))))"

subsection \<open>Math.round and division\<close>

text \<open>
  The integers of a response body are number literals of its JSON text, read as doubles
  (\<open>js_number\<close>). \<open>total / rowCount\<close> is the division of doubles: the quotient rounded
  to a double, with the cases of zero and infinity (a zero divisor here is the integer 0,
  which is \<open>+0\<close>). \<open>Math.round\<close> gives the integer nearest to a double, a tie going up.
\<close>

definition js_number :: "int \<Rightarrow> jsnum" where
  "js_number n = to_double (of_int n)"

fun js_divide :: "jsnum \<Rightarrow> jsnum \<Rightarrow> jsnum" where
  "js_divide (Fin x) (Fin y) =
     (if y = 0 then (if x = 0 then NaN else if 0 < x then PosInf else NegInf)
      else to_double (x / y))"
| "js_divide (Fin x) PosInf = Fin 0"
| "js_divide (Fin x) NegInf = Fin 0"
| "js_divide PosInf (Fin y) = (if 0 \<le> y then PosInf else NegInf)"
| "js_divide NegInf (Fin y) = (if 0 \<le> y then NegInf else PosInf)"
| "js_divide a b = NaN"

definition js_div :: "int \<Rightarrow> int \<Rightarrow> jsnum" where
  "js_div a b = js_divide (js_number a) (js_number b)"

fun Math_round :: "jsnum \<Rightarrow> jsnum" where
  "Math_round (Fin q) = Fin (of_int \<lfloor>q + 1 / 2\<rfloor>)"
| "Math_round n = n"

section \<open>The page the component is built on\<close>

text \<open>
  The query string of the page's URL, read through \<open>url.readQueryString\<close>, which
  gives \<open>null\<close> for a parameter that is not there.
\<close>

type_synonym query_string = "(string \<times> string) list"

definition readQueryString :: "query_string \<Rightarrow> string \<Rightarrow> string option" where
  "readQueryString url name = map_of url name"

text \<open>
  A header cell of the table, with the two attributes the component reads and writes.
  The cells of \<open>component.querySelectorAll('th')\<close> are kept in document order.
\<close>

record th =
  data_column :: "string option"
  data_sort :: "string option"

text \<open>\<open>component.querySelector('th[data-sort]')\<close>: the first cell with the attribute.\<close>

definition query_th_data_sort :: "th list \<Rightarrow> th option" where
  "query_th_data_sort ths = find (\<lambda>t. data_sort t \<noteq> None) ths"

text \<open>
  \<open>component.querySelector('th[data-column=' + v + ']')\<close>. The value is spliced into
  the selector unquoted. When it is a plain identifier (a letter or underscore, or a
  hyphen and then one, followed by letters, digits, underscores and hyphens) the selector
  finds the first cell whose \<open>data-column\<close> is exactly that text. For any other text
  the outcome is the selector engine's: a \<open>SyntaxError\<close>, no element, a header cell, or
  some other element of the table; the engine is a parameter of the model.
\<close>

datatype selected = NoMatch | MatchTh nat | MatchOther

type_synonym selector_engine = "string \<Rightarrow> th list \<Rightarrow> exn + selected"

definition ident_start :: "char \<Rightarrow> bool" where
  "ident_start c \<longleftrightarrow>
     c \<in> set ''abcdefghijklmnopqrstuvwxyzABCDEFGHIJKLMNOPQRSTUVWXYZ_''"

definition ident_char :: "char \<Rightarrow> bool" where
  "ident_char c \<longleftrightarrow> ident_start c \<or> c \<in> set ''0123456789-''"

fun plain_ident :: "string \<Rightarrow> bool" where
  "plain_ident [] = False"
| "plain_ident [c] = ident_start c"
| "plain_ident (c # d # cs) =
     ((ident_start c \<or> (c = CHR ''-'' \<and> ident_start d)) \<and> list_all ident_char (d # cs))"

fun first_index :: "('a \<Rightarrow> bool) \<Rightarrow> 'a list \<Rightarrow> nat option" where
  "first_index P [] = None"
| "first_index P (x # xs) = (if P x then Some 0 else map_option Suc (first_index P xs))"

definition query_th_data_column :: "selector_engine \<Rightarrow> string \<Rightarrow> th list \<Rightarrow> exn + selected" where
  "query_th_data_column engine v ths =
     (if plain_ident v then
        Inr (case first_index (\<lambda>t. data_column t = Some v) ths of
               None \<Rightarrow> NoMatch | Some i \<Rightarrow> MatchTh i)
      else engine v ths)"

section \<open>The request parameters\<close>

text \<open>
  \<open>requestParams\<close>: \<open>page\<close> and \<open>rowCount\<close> are numbers, \<open>sortColumn\<close> and
  \<open>sortDirection\<close> may be \<open>undefined\<close>, and \<open>search\<close> is a property that exists
  only once it has been set (\<open>None\<close>: no such property).
\<close>

record request_params =
  page :: jsnum
  rowCount :: jsnum
  sortColumn :: jsval
  sortDirection :: jsval
  search :: "string option"

definition DEFAULT_PAGE :: jsnum where
  "DEFAULT_PAGE = Fin 1"

definition DEFAULT_ROWS :: jsnum where
  "DEFAULT_ROWS = Fin 15"

definition DEFAULT_SORT :: string where
  "DEFAULT_SORT = ''desc''"

text \<open>
  \<open>replacementSorts[key]\<close> on the object \<open>{asc: 'desc', desc: 'asc'}\<close>: its two own
  properties, then what it inherits, then \<open>undefined\<close>.
\<close>

definition replacementSorts :: "string \<Rightarrow> jsval" where
  "replacementSorts key =
     (if key = ''asc'' then Str ''desc''
      else if key = ''desc'' then Str ''asc''
      else if key \<in> set object_prototype_members then Inherited key
      else Undefined)"

definition getPageNumber :: "query_string \<Rightarrow> jsnum" where
  "getPageNumber url =
     (case readQueryString url ''page'' of
        None \<Rightarrow> DEFAULT_PAGE
      | Some p \<Rightarrow> parseInt p)"

definition getRowCount :: "query_string \<Rightarrow> jsnum" where
  "getRowCount url =
     (case readQueryString url ''rowCount'' of
        None \<Rightarrow> DEFAULT_ROWS
      | Some r \<Rightarrow> parseInt r)"

definition getSortDirection :: "query_string \<Rightarrow> th list \<Rightarrow> jsval" where
  "getSortDirection url ths =
     (case readQueryString url ''sortDirection'' of
        Some d \<Rightarrow> Str d
      | None \<Rightarrow>
          (case query_th_data_sort ths of
             Some t \<Rightarrow> getAttribute (data_sort t)
           | None \<Rightarrow> Undefined))"

definition getSortColumn :: "query_string \<Rightarrow> th list \<Rightarrow> jsval" where
  "getSortColumn url ths =
     (case readQueryString url ''sortColumn'' of
        Some c \<Rightarrow> Str c
      | None \<Rightarrow>
          (case query_th_data_sort ths of
             Some t \<Rightarrow> getAttribute (data_column t)
           | None \<Rightarrow> Undefined))"

definition getSearchTerm :: "query_string \<Rightarrow> string option" where
  "getSearchTerm url = readQueryString url ''search''"

definition loadRequestParams :: "query_string \<Rightarrow> th list \<Rightarrow> request_params" where
  "loadRequestParams url ths =
     (let params = \<lparr>page = getPageNumber url, rowCount = getRowCount url,
                     sortColumn = getSortColumn url ths,
                     sortDirection = getSortDirection url ths, search = None\<rparr>;
          s = getSearchTerm url
      in if truthy s then params\<lparr>search := s\<rparr> else params)"

text \<open>
  The query of an outgoing GET, \<open>superagent.get(src).query(requestParams)\<close>: the
  properties in order, one \<open>key=value\<close> pair each, except those whose value is
  \<open>null\<close> or \<open>undefined\<close>, which the library skips. An empty string is sent as
  \<open>key=\<close>. Values are kept as values, before their encoding as text.
\<close>

datatype param = NumParam jsnum | ValParam jsval

type_synonym query = "(string \<times> param) list"

fun nullish :: "jsval \<Rightarrow> bool" where
  "nullish Undefined = True"
| "nullish Null = True"
| "nullish v = False"

definition serialize :: "request_params \<Rightarrow> query" where
  "serialize rp =
     [(''page'', NumParam (page rp)), (''rowCount'', NumParam (rowCount rp))]
     @ (if nullish (sortColumn rp) then [] else [(''sortColumn'', ValParam (sortColumn rp))])
     @ (if nullish (sortDirection rp) then []
        else [(''sortDirection'', ValParam (sortDirection rp))])
     @ (case search rp of None \<Rightarrow> [] | Some s \<Rightarrow> [(''search'', ValParam (Str s))])"

text \<open>
  \<open>JSON.parse(JSON.stringify(requestParams))\<close>, the copy handed to the pagination:
  a number that is not finite becomes \<open>null\<close>, an \<open>undefined\<close> or a function is
  left out, and the inherited prototype object has no property to write.
\<close>

datatype json = JNumber rat | JNull | JString string | JEmptyObject

fun json_number :: "jsnum \<Rightarrow> json" where
  "json_number (Fin q) = JNumber q"
| "json_number n = JNull"

fun json_property :: "string \<Rightarrow> jsval \<Rightarrow> (string \<times> json) list" where
  "json_property k Undefined = []"
| "json_property k Null = [(k, JNull)]"
| "json_property k (Str s) = [(k, JString s)]"
| "json_property k (Inherited n) = (if n = ''__proto__'' then [(k, JEmptyObject)] else [])"

definition json_copy :: "request_params \<Rightarrow> (string \<times> json) list" where
  "json_copy rp =
     [(''page'', json_number (page rp)), (''rowCount'', json_number (rowCount rp))]
     @ json_property ''sortColumn'' (sortColumn rp)
     @ json_property ''sortDirection'' (sortDirection rp)
     @ (case search rp of None \<Rightarrow> [] | Some s \<Rightarrow> [(''search'', JString s)])"

section \<open>The component\<close>

text \<open>
  The body of a response, as the endpoint is documented to send it, and what the
  callback of a fetch can be handed: \<open>null\<close>, \<open>undefined\<close>, an error object or a
  response with such a body.
\<close>

record server_page =
  current :: int
  body_rowCount :: int
  body_total :: int
  rows :: "(string \<times> string) list list"

datatype payload = PNull | PUndefined | ErrorObj string | Response server_page

text \<open>
  \<open>data.body\<close>: reading a property of \<open>null\<close> or \<open>undefined\<close> throws; an error
  object has no \<open>body\<close>.
\<close>

fun body_of :: "payload \<Rightarrow> exn + server_page option" where
  "body_of PNull = Inl TypeError"
| "body_of PUndefined = Inl TypeError"
| "body_of (ErrorObj e) = Inr None"
| "body_of (Response b) = Inr (Some b)"

text \<open>
  The table body holds the host page's markup, the loading placeholder, or what the
  template made of the data it was given.
\<close>

datatype tbody_content = HostMarkup | LoadingRow | Rendered "server_page option"

text \<open>The pagination object: what \<open>setPage\<close>, \<open>setPageCount\<close> and
  \<open>setRequestParams\<close> last stored in it.\<close>

record pager =
  pg_page :: "jsnum option"
  pg_pageCount :: "jsnum option"
  pg_requestParams :: "(string \<times> json) list option"

datatype history_call = Replace request_params | Push request_params

text \<open>
  The state of one datagrid: its own fields, the header cells it rewrites, the two
  toolbars, and the calls it has made to the network (\<open>requests\<close>, the query of every
  GET issued) and to the browser history (\<open>history\<close>), oldest first.
\<close>

record datagrid =
  firstLoad :: bool
  data :: payload
  requestParams :: request_params
  headers :: "th list"
  tbody :: tbody_content
  searchTerm :: "string option"
  pagination :: pager
  toolbarFooter :: "pager option"
  requests :: "query list"
  history :: "history_call list"

text \<open>
  A handler either returns or throws; a throw keeps every assignment made before it.
\<close>

type_synonym outcome = "(exn \<times> datagrid) + datagrid"

fun final :: "outcome \<Rightarrow> datagrid" where
  "final (Inl (e, st)) = st"
| "final (Inr st) = st"

fun returned :: "outcome \<Rightarrow> bool" where
  "returned (Inl x) = False"
| "returned (Inr st) = True"

text \<open>
  \<open>showLoadingOverlay\<close> empties the table body and puts the placeholder row in it
  (the row's height, a matter of layout, is left out).
\<close>

definition showLoadingOverlay :: "datagrid \<Rightarrow> datagrid" where
  "showLoadingOverlay st = st\<lparr>tbody := LoadingRow\<rparr>"

definition loadData :: "datagrid \<Rightarrow> datagrid" where
  "loadData st = st\<lparr>requests := requests st @ [serialize (requestParams st)]\<rparr>"

definition parseRows :: "server_page option \<Rightarrow> datagrid \<Rightarrow> datagrid" where
  "parseRows body st = st\<lparr>tbody := Rendered body\<rparr>"

text \<open>
  \<open>setSortHeaders\<close>: the attribute is removed from every header cell first, so a
  selector that throws leaves them all without it.
\<close>

definition setSortHeaders :: "selector_engine \<Rightarrow> datagrid \<Rightarrow> outcome" where
  "setSortHeaders engine st =
     (let ths = map (\<lambda>t. t\<lparr>data_sort := None\<rparr>) (headers st);
          st1 = st\<lparr>headers := ths\<rparr>
      in case query_th_data_column engine (to_string (sortColumn (requestParams st))) ths of
           Inl e \<Rightarrow> Inl (e, st1)
         | Inr (MatchTh i) \<Rightarrow>
             Inr (st1\<lparr>headers := ths[i := (ths ! i)
                     \<lparr>data_sort := Some (to_string (sortDirection (requestParams st)))\<rparr>]\<rparr>)
         | Inr _ \<Rightarrow> Inr st1)"

text \<open>
  \<open>parsePagination\<close>: \<open>setPage\<close> has run by the time the argument of
  \<open>setPageCount\<close> is evaluated, which throws when the data has no body.
\<close>

definition parsePagination :: "datagrid \<Rightarrow> outcome" where
  "parsePagination st =
     (let p1 = (pagination st)\<lparr>pg_page := Some (page (requestParams st))\<rparr>;
          st1 = st\<lparr>pagination := p1\<rparr>
      in case body_of (data st) of
           Inl e \<Rightarrow> Inl (e, st1)
         | Inr None \<Rightarrow> Inl (TypeError, st1)
         | Inr (Some b) \<Rightarrow>
             (let p3 = p1\<lparr>pg_pageCount := Some (Math_round (js_div (body_total b) (body_rowCount b))),
                          pg_requestParams := Some (json_copy (requestParams st))\<rparr>
              in Inr (st1\<lparr>pagination := p3, toolbarFooter := Some p3\<rparr>)))"

definition parseSearchbar :: "datagrid \<Rightarrow> datagrid" where
  "parseSearchbar st =
     (if truthy (search (requestParams st)) then st\<lparr>searchTerm := search (requestParams st)\<rparr>
      else st)"

subsection \<open>The handlers\<close>

text \<open>
  The \<open>data-ready\<close> listener is an ordinary function, so its \<open>this\<close> is the object
  it is called on. \<open>EventEmitter.emit\<close> calls a listener on the emitter, which has no
  \<open>firstLoad\<close> property; the datagrid's own \<open>firstLoad\<close> is what the listener would
  read if it were called on the datagrid.
\<close>

datatype receiver = EmitterObj | DatagridObj

fun this_firstLoad :: "receiver \<Rightarrow> datagrid \<Rightarrow> bool option" where
  "this_firstLoad EmitterObj st = None"
| "this_firstLoad DatagridObj st = Some (firstLoad st)"

fun truthy_bool :: "bool option \<Rightarrow> bool" where
  "truthy_bool None = False"
| "truthy_bool (Some b) = b"

definition data_ready :: "receiver \<Rightarrow> payload \<Rightarrow> datagrid \<Rightarrow> outcome" where
  "data_ready this d st =
     (let st1 = st\<lparr>data := d\<rparr>
      in case body_of d of
           Inl e \<Rightarrow> Inl (e, st1)
         | Inr body \<Rightarrow>
             (case parsePagination (parseRows body st1) of
                Inl x \<Rightarrow> Inl x
              | Inr st2 \<Rightarrow>
                  Inr (if truthy_bool (this_firstLoad this st2)
                       then st2\<lparr>history := history st2 @ [Replace (requestParams st2)]\<rparr>
                       else st2\<lparr>history := history st2 @ [Push (requestParams st2)]\<rparr>)))"

definition emit_data_ready :: "payload \<Rightarrow> datagrid \<Rightarrow> outcome" where
  "emit_data_ready d st = data_ready EmitterObj d st"

text \<open>The callback given to \<open>end\<close> in \<open>loadData\<close>, called with \<open>(error, response)\<close>.\<close>

definition end_callback :: "payload \<Rightarrow> payload \<Rightarrow> datagrid \<Rightarrow> outcome" where
  "end_callback error response st = emit_data_ready response st"

text \<open>
  \<open>sort-request\<close>: the element is the header cell that was clicked, given by its
  position among the header cells (a position past the last cell is no cell, and nothing
  happens).
\<close>

definition sort_request :: "selector_engine \<Rightarrow> nat \<Rightarrow> datagrid \<Rightarrow> outcome" where
  "sort_request engine i st =
     (if length (headers st) \<le> i then Inr st
      else
        (let st1 = showLoadingOverlay st;
             el = headers st1 ! i;
             sortColumn' = getAttribute (data_column el);
             sortDirection' =
               (case data_sort el of
                  None \<Rightarrow> Str DEFAULT_SORT
                | Some d \<Rightarrow> replacementSorts d);
             st2 = st1\<lparr>requestParams := (requestParams st1)
                     \<lparr>sortColumn := sortColumn', sortDirection := sortDirection'\<rparr>\<rparr>
         in case setSortHeaders engine st2 of
              Inl x \<Rightarrow> Inl x
            | Inr st3 \<Rightarrow> Inr (loadData st3)))"

text \<open>\<open>pagination-request\<close>: the element is a pagination link, given by its
  \<open>data-page\<close> attribute.\<close>

definition pagination_request :: "string option \<Rightarrow> datagrid \<Rightarrow> datagrid" where
  "pagination_request data_page st =
     (let st1 = showLoadingOverlay st;
          p = to_string (getAttribute data_page);
          st2 = st1\<lparr>requestParams := (requestParams st1)\<lparr>page := parseInt p\<rparr>\<rparr>
      in loadData st2)"

text \<open>\<open>search-request\<close>: the argument's \<open>value\<close> is the submitted term.\<close>

definition search_request :: "string \<Rightarrow> datagrid \<Rightarrow> datagrid" where
  "search_request term st =
     (let st1 = showLoadingOverlay st;
          st2 = st1\<lparr>requestParams := (requestParams st1)\<lparr>page := Fin 1\<rparr>\<rparr>;
          st3 = st2\<lparr>requestParams := (requestParams st2)\<lparr>search := Some term\<rparr>\<rparr>
      in loadData st3)"

subsection \<open>Construction and runs\<close>

text \<open>
  \<open>new Datagrid(component)\<close> on a page with the given query string and header cells.
  The page is taken to keep the markup contract: the table has a \<open>tbody\<close> and the
  rows template exists. The toolbars and the header links change nothing that is
  modelled. A throw in \<open>setSortHeaders\<close> ends the constructor before the first fetch,
  but the handlers are registered by then and the header cells clickable.
\<close>

definition initial :: "query_string \<Rightarrow> th list \<Rightarrow> datagrid" where
  "initial url ths =
     \<lparr>firstLoad = True, data = PNull, requestParams = loadRequestParams url ths,
      headers = ths, tbody = HostMarkup, searchTerm = None,
      pagination = \<lparr>pg_page = None, pg_pageCount = None, pg_requestParams = None\<rparr>,
      toolbarFooter = None, requests = [], history = []\<rparr>"

definition Datagrid :: "selector_engine \<Rightarrow> query_string \<Rightarrow> th list \<Rightarrow> outcome" where
  "Datagrid engine url ths =
     (let st1 = parseSearchbar (initial url ths);
          st2 = showLoadingOverlay st1
      in case setSortHeaders engine st2 of
           Inl x \<Rightarrow> Inl x
         | Inr st3 \<Rightarrow> Inr (loadData st3))"

datatype event =
    SortRequest nat
  | PaginationRequest "string option"
  | SearchRequest string
  | EndCallback payload payload

fun handle :: "selector_engine \<Rightarrow> event \<Rightarrow> datagrid \<Rightarrow> outcome" where
  "handle engine (SortRequest i) st = sort_request engine i st"
| "handle engine (PaginationRequest a) st = Inr (pagination_request a st)"
| "handle engine (SearchRequest term) st = Inr (search_request term st)"
| "handle engine (EndCallback error response) st = end_callback error response st"

text \<open>A run: the events one after the other, each on the state the last one left,
  whether its handler returned or threw.\<close>

fun run :: "selector_engine \<Rightarrow> event list \<Rightarrow> datagrid \<Rightarrow> datagrid" where
  "run engine [] st = st"
| "run engine (ev # evs) st = run engine evs (final (handle engine ev st))"

section \<open>Notions used to state the properties\<close>

text \<open>A selector engine that rejects whatever is not a plain identifier.\<close>

definition no_engine :: selector_engine where
  "no_engine v ths = Inl SyntaxError"

text \<open>A number that is an integer and at least 1.\<close>

fun pos_int :: "jsnum \<Rightarrow> bool" where
  "pos_int (Fin q) = (q = of_int \<lfloor>q\<rfloor> \<and> 1 \<le> q)"
| "pos_int n = False"

definition asc_desc :: "jsval \<Rightarrow> bool" where
  "asc_desc v \<longleftrightarrow> v = Str ''asc'' \<or> v = Str ''desc''"

text \<open>The parameters of a query other than the two sort parameters.\<close>

definition other_params :: "query \<Rightarrow> query" where
  "other_params q = filter (\<lambda>kv. fst kv \<noteq> ''sortColumn'' \<and> fst kv \<noteq> ''sortDirection'') q"

text \<open>
  The precedence the specification gives for a field of the initial request state: the
  URL query string if it has the field, else the default-sort markup of the table
  header, else the hard-coded default.
\<close>

definition spec_resolve :: "'a option \<Rightarrow> 'a option \<Rightarrow> 'a \<Rightarrow> 'a" where
  "spec_resolve from_url from_markup hard_coded =
     (case from_url of
        Some v \<Rightarrow> v
      | None \<Rightarrow> (case from_markup of Some v \<Rightarrow> v | None \<Rightarrow> hard_coded))"

text \<open>
  The header cells after a sort request on cell \<open>i\<close> that found its cell: the
  indicator is removed everywhere and then set on cell \<open>i\<close>.
\<close>

definition mark :: "nat \<Rightarrow> string \<Rightarrow> th list \<Rightarrow> th list" where
  "mark i d ths =
     (map (\<lambda>t. t\<lparr>data_sort := None\<rparr>) ths)
       [i := ((map (\<lambda>t. t\<lparr>data_sort := None\<rparr>) ths) ! i)\<lparr>data_sort := Some d\<rparr>]"

text \<open>
  What the markup contract and the pagination links promise: a header cell's
  \<open>data-sort\<close> is absent, \<open>asc\<close> or \<open>desc\<close>, and the \<open>data-page\<close> of a
  clicked link parses to an integer that is at least 1.
\<close>

definition sort_attr_ok :: "string option \<Rightarrow> bool" where
  "sort_attr_ok a \<longleftrightarrow> a = None \<or> a = Some ''asc'' \<or> a = Some ''desc''"

fun valid_event :: "event \<Rightarrow> bool" where
  "valid_event (PaginationRequest a) = pos_int (parseInt (to_string (getAttribute a)))"
| "valid_event ev = True"

text \<open>
  The invariant of the runs from a page that starts with a sort direction: the direction
  is \<open>asc\<close> or \<open>desc\<close>, and so is every \<open>data-sort\<close> that a header cell carries.
\<close>

definition direction_inv :: "datagrid \<Rightarrow> bool" where
  "direction_inv st \<longleftrightarrow>
     asc_desc (sortDirection (requestParams st))
     \<and> list_all (\<lambda>t. sort_attr_ok (data_sort t)) (headers st)"

fun is_push :: "history_call \<Rightarrow> bool" where
  "is_push (Push rp) = True"
| "is_push (Replace rp) = False"

section \<open>Auxiliary facts\<close>

text \<open>The limit written out, for evaluation.\<close>

lemma double_limit_code [code]:
  "double_limit =
     179769313486231590772930519078902473361797697894230657273430081157732675805500963132708477322407536021120113879871393357658789768814416622492847430639474124377767893424865485276302219601246094119453082952085005768838150682342462881473913110540827237163350510684586298239947245938479716304835356329624224137216"
  by (simp add: double_limit_def)

lemma powi_order: "(2::rat) powi m \<le> x \<Longrightarrow> x < 2 powi n \<Longrightarrow> m < n"
proof (rule ccontr)
  assume a: "(2::rat) powi m \<le> x" "x < 2 powi n" and "\<not> m < n"
  then have "n \<le> m" by simp
  then have "(2::rat) powi n \<le> 2 powi m" by (intro power_int_increasing) simp_all
  with a show False by simp
qed

lemma bitlen_powi:
  assumes "0 < n"
  shows "(2::rat) powi (bitlen n - 1) \<le> of_int n" and "of_int n < (2::rat) powi bitlen n"
proof -
  from bitlen_bounds [OF assms]
  have lo: "2 ^ nat (bitlen n - 1) \<le> n" and hi: "n < 2 ^ nat (bitlen n)" by simp_all
  have b1: "1 \<le> bitlen n"
  proof (rule ccontr)
    assume "\<not> 1 \<le> bitlen n"
    then have "nat (bitlen n) = 0" by simp
    with hi assms show False by simp
  qed
  have "(of_int (2 ^ nat (bitlen n - 1)) :: rat) \<le> of_int n"
    using lo by (simp only: of_int_le_iff)
  then show "(2::rat) powi (bitlen n - 1) \<le> of_int n"
    using b1 by (simp add: power_int_def)
  have "(of_int n :: rat) < of_int (2 ^ nat (bitlen n))"
    using hi by (simp only: of_int_less_iff)
  then show "of_int n < (2::rat) powi bitlen n"
    using b1 by (simp add: power_int_def)
qed

lemma exponent_bounds:
  assumes "q \<noteq> 0"
  shows "2 powi exponent q \<le> \<bar>q\<bar>" and "\<bar>q\<bar> < 2 powi (exponent q + 1)"
proof -
  define n where "n = fst (quotient_of \<bar>q\<bar>)"
  define d where "d = snd (quotient_of \<bar>q\<bar>)"
  define k where "k = bitlen n - bitlen d"
  have qo: "quotient_of \<bar>q\<bar> = (n, d)" by (simp add: n_def d_def)
  have d: "0 < d" using quotient_of_denom_pos [OF qo] .
  have q: "\<bar>q\<bar> = of_int n / of_int d" using quotient_of_div [OF qo] .
  have "0 < \<bar>q\<bar>" using assms by simp
  then have n: "0 < n" using d by (simp add: q zero_less_divide_iff)
  note bn = bitlen_powi [OF n]
  note bd = bitlen_powi [OF d]
  have dpos: "(0::rat) < of_int d" using d by simp
  have "of_int n / of_int d < (2::rat) powi bitlen n / 2 powi (bitlen d - 1)"
    using n bn(2) bd(1) by (intro frac_less) simp_all
  also have "\<dots> = 2 powi (k + 1)"
    by (simp add: k_def power_int_diff [symmetric] algebra_simps)
  finally have up: "\<bar>q\<bar> < 2 powi (k + 1)" by (simp add: q)
  have "(2::rat) powi (bitlen n - 1) / 2 powi bitlen d < of_int n / of_int d"
    using bn(1) bd(2) dpos by (intro frac_less2) simp_all
  moreover have "(2::rat) powi (bitlen n - 1) / 2 powi bitlen d = 2 powi (k - 1)"
    by (simp add: k_def power_int_diff [symmetric] algebra_simps)
  ultimately have lo: "2 powi (k - 1) < \<bar>q\<bar>" by (simp add: q)
  have e: "exponent q = (if 2 powi k \<le> \<bar>q\<bar> then k else k - 1)"
    by (simp add: exponent_def Let_def n_def d_def k_def)
  show "2 powi exponent q \<le> \<bar>q\<bar>"
    using lo by (simp add: e)
  show "\<bar>q\<bar> < 2 powi (exponent q + 1)"
    using up by (simp add: e)
qed

lemma round_half_even_error: "\<bar>of_int (round_half_even m) - m\<bar> \<le> 1 / 2"
proof -
  have "of_int \<lfloor>m\<rfloor> \<le> m" "m < of_int \<lfloor>m\<rfloor> + 1" by linarith+
  then show ?thesis
    by (auto simp add: round_half_even_def Let_def abs_le_iff)
qed

lemma round_half_even_of_int: "round_half_even (of_int z) = z"
  by (simp add: round_half_even_def)

lemma to_double_normal:
  assumes q: "q \<noteq> 0" and e: "- 1022 \<le> exponent q" and b: "\<bar>q\<bar> < 2 ^ 1023"
  defines "u \<equiv> (2::rat) powi (exponent q - 52)"
  shows "to_double q = Fin (of_int (round_half_even (q / u)) * u)"
    and "\<bar>of_int (round_half_even (q / u)) * u - q\<bar> \<le> \<bar>q\<bar> / 2 ^ 53"
proof -
  define x where "x = of_int (round_half_even (q / u)) * u"
  have u: "0 < u" by (simp add: u_def)
  have "x - q = (of_int (round_half_even (q / u)) - q / u) * u"
    using u by (simp add: x_def field_simps)
  then have "\<bar>x - q\<bar> = \<bar>of_int (round_half_even (q / u)) - q / u\<bar> * u"
    using u by (simp add: abs_mult)
  also have "\<dots> \<le> 1 / 2 * u"
    using u round_half_even_error [of "q / u"] by (intro mult_right_mono) simp_all
  also have "1 / 2 * u = 2 powi exponent q / 2 ^ 53"
    by (simp add: u_def power_int_diff)
  also have "\<dots> \<le> \<bar>q\<bar> / 2 ^ 53"
    using exponent_bounds(1) [OF q] by (intro divide_right_mono) simp_all
  finally have err: "\<bar>x - q\<bar> \<le> \<bar>q\<bar> / 2 ^ 53" .
  then show "\<bar>of_int (round_half_even (q / u)) * u - q\<bar> \<le> \<bar>q\<bar> / 2 ^ 53"
    by (simp add: x_def)
  have "\<bar>q\<bar> / 2 ^ 53 \<le> \<bar>q\<bar>" by (simp add: field_simps)
  with err have "\<bar>x\<bar> \<le> 2 * \<bar>q\<bar>" by linarith
  also have "\<dots> < 2 * 2 ^ 1023" using b by simp
  finally have "\<bar>x\<bar> < 2 ^ 1024" by simp
  then have "\<not> double_limit \<le> x" "\<not> x \<le> - double_limit"
    unfolding double_limit_def by linarith+
  moreover have "max (exponent q) (- 1022) = exponent q" using e by simp
  ultimately show "to_double q = Fin (of_int (round_half_even (q / u)) * u)"
    using q unfolding to_double_def Let_def x_def u_def by (simp only: if_False)
qed

lemma to_double_exact:
  assumes q: "q \<noteq> 0" and e: "- 1022 \<le> exponent q" and b: "\<bar>q\<bar> < 2 ^ 1023"
    and z: "q = of_int z * 2 powi (exponent q - 52)"
  shows "to_double q = Fin q"
proof -
  have u: "(2::rat) powi (exponent q - 52) \<noteq> 0" by simp
  have "q / 2 powi (exponent q - 52) = of_int z"
    using u by (subst z) simp
  then have "of_int (round_half_even (q / 2 powi (exponent q - 52))) * 2 powi (exponent q - 52) = q"
    using z by (simp add: round_half_even_of_int)
  with to_double_normal(1) [OF q e b] show ?thesis by simp
qed

text \<open>An integer or half-integer whose numerator is below \<open>2 ^ 53\<close> is a double.\<close>

lemma to_double_dyadic:
  assumes h: "h \<noteq> 0" "\<bar>h\<bar> < 2 ^ 53" and s: "s \<le> 1"
  shows "to_double (of_int h / 2 ^ s) = Fin (of_int h / 2 ^ s)"
proof -
  define q :: rat where "q = of_int h / 2 ^ s"
  have q0: "q \<noteq> 0" using h by (simp add: q_def)
  have absq: "\<bar>q\<bar> = of_int \<bar>h\<bar> / 2 ^ s" by (simp add: q_def)
  have "1 \<le> \<bar>h\<bar>" using h(1) by simp
  then have "(of_int 1 :: rat) \<le> of_int \<bar>h\<bar>" by (simp only: of_int_le_iff)
  then have h1: "(1::rat) \<le> of_int \<bar>h\<bar>" by simp
  have "(of_int \<bar>h\<bar> :: rat) < of_int (2 ^ 53)" using h(2) by (simp only: of_int_less_iff)
  then have h2: "(of_int \<bar>h\<bar> :: rat) < 2 ^ 53" by simp
  have s2: "(2::rat) ^ s \<le> 2" "(1::rat) \<le> 2 ^ s" using s by (cases s; cases "s - 1"; simp)+
  have lo: "1 / 2 \<le> \<bar>q\<bar>"
    unfolding absq using h1 s2 by (intro frac_le) simp_all
  have hi: "\<bar>q\<bar> < 2 ^ 53"
  proof -
    have "of_int \<bar>h\<bar> / 2 ^ s \<le> (of_int \<bar>h\<bar> :: rat) / 1"
      using h1 s2 by (intro frac_le) simp_all
    with h2 show ?thesis by (simp add: absq)
  qed
  have "(2::rat) powi (- 1) \<le> \<bar>q\<bar>" using lo by (simp add: power_int_minus)
  from powi_order [OF this exponent_bounds(2) [OF q0]] have "- 1 < exponent q + 1" .
  then have elo: "- 1 \<le> exponent q" by simp
  have "of_int \<bar>h\<bar> / 2 ^ s < (2::rat) ^ 53 / 2 ^ s"
    using h2 by (intro divide_strict_right_mono) simp_all
  also have "(2::rat) ^ 53 / 2 ^ s = 2 powi (53 - int s)"
    by (simp add: power_int_diff)
  finally have "\<bar>q\<bar> < (2::rat) powi (53 - int s)" by (simp add: absq)
  from powi_order [OF exponent_bounds(1) [OF q0] this] have ehi: "exponent q < 53 - int s" .
  have e: "- 1022 \<le> exponent q" using elo by simp
  have b: "\<bar>q\<bar> < 2 ^ 1023"
  proof -
    have "(2::rat) ^ 53 \<le> 2 ^ 1023" by (intro power_increasing) simp_all
    with hi show ?thesis by linarith
  qed
  define t where "t = nat (52 - exponent q) - s"
  have t: "int t + int s = 52 - exponent q" using ehi elo s by (simp add: t_def)
  have "(2::rat) powi (int t + int s) = 2 ^ (t + s)"
    by (simp only: of_nat_add [symmetric] power_int_of_nat)
  then have p: "(2::rat) powi (52 - exponent q) = 2 ^ t * 2 ^ s"
    by (simp add: t power_add)
  have "(2::rat) powi (exponent q - 52) * 2 powi (52 - exponent q) = 1"
    by (simp flip: power_int_add)
  then have "(2::rat) powi (exponent q - 52) * (2 ^ t * 2 ^ s) = 1"
    by (simp only: p)
  then have "of_int (h * 2 ^ t) * 2 powi (exponent q - 52) = q"
    by (simp add: q_def field_simps)
  then have z: "q = of_int (h * 2 ^ t) * 2 powi (exponent q - 52)" by simp
  from to_double_exact [OF q0 e b z] show ?thesis by (simp add: q_def)
qed


lemma to_double_of_int:
  assumes "\<bar>n\<bar> < 2 ^ 53"
  shows "to_double (of_int n) = Fin (of_int n)"
proof (cases "n = 0")
  case True
  then show ?thesis by (simp add: to_double_def)
next
  case False
  from to_double_dyadic [OF False assms, of 0] show ?thesis by simp
qed

lemma to_double_half:
  assumes "h \<noteq> 0" and "\<bar>h\<bar> < 2 ^ 53"
  shows "to_double (of_int h / 2) = Fin (of_int h / 2)"
  using to_double_dyadic [OF assms, of 1] by simp

text \<open>
  In the exact range, \<open>Math.round\<close> of the rounded quotient is the integer nearest to
  the exact quotient: the rounding error is below the distance of the quotient from the
  next half-integer, unless the quotient is a half-integer, which is a double.
\<close>

lemma floor_half: "\<lfloor>(1::rat) / 2\<rfloor> = 0"
  by (rule floor_unique) simp_all

lemma round_of_rounded_quotient:
  fixes a b :: int
  assumes b: "0 < b" "b < 2 ^ 53" and a: "\<bar>a\<bar> < 2 ^ 52"
  shows "Math_round (to_double (of_int a / of_int b)) = Fin (of_int ((2 * a + b) div (2 * b)))"
proof (cases "a = 0")
  case True
  then show ?thesis using b by (simp add: to_double_def floor_half)
next
  case False
  define q :: rat where "q = of_int a / of_int b"
  define k where "k = (2 * a + b) div (2 * b)"
  define r where "r = (2 * a + b) mod (2 * b)"
  define c :: rat where "c = 1 / (2 * of_int b)"
  have bq: "(0::rat) < of_int b" using b by simp
  have c: "0 < c" using bq by (simp add: c_def)
  have q0: "q \<noteq> 0" using False b by (simp add: q_def)
  have r: "0 \<le> r" "r \<le> 2 * b - 1" using b by (simp_all add: r_def) 
  have "2 * a + b = 2 * b * k + r" by (simp add: k_def r_def)
  then have "(of_int (2 * a + b) :: rat) = of_int (2 * b * k + r)" by simp
  then have qk: "q + 1 / 2 - of_int k = of_int r * c"
    using bq by (simp add: q_def c_def field_simps)
  have absq: "\<bar>q\<bar> = of_int \<bar>a\<bar> / of_int b" using b by (simp add: q_def)
  have "1 \<le> \<bar>a\<bar>" using False by simp
  then have "(of_int 1 :: rat) \<le> of_int \<bar>a\<bar>" by (simp only: of_int_le_iff)
  then have a1: "(1::rat) \<le> of_int \<bar>a\<bar>" by simp
  have "(of_int \<bar>a\<bar> :: rat) < of_int (2 ^ 52)" using a by (simp only: of_int_less_iff)
  then have a2: "(of_int \<bar>a\<bar> :: rat) < 2 ^ 52" by simp
  have "(of_int b :: rat) < of_int (2 ^ 53)" using b(2) by (simp only: of_int_less_iff)
  then have b2: "(of_int b :: rat) < 2 ^ 53" by simp
  have "1 \<le> b" using b(1) by simp
  then have "(of_int 1 :: rat) \<le> of_int b" by (simp only: of_int_le_iff)
  then have b1: "(1::rat) \<le> of_int b" by simp
  have "1 / 2 ^ 53 < (1::rat) / of_int b"
    using b2 bq by (intro divide_strict_left_mono) simp_all
  also have "\<dots> \<le> \<bar>q\<bar>"
    unfolding absq using a1 bq by (intro divide_right_mono) simp_all
  finally have "(2::rat) powi (- 53) \<le> \<bar>q\<bar>" by (simp add: power_int_minus field_simps)
  from powi_order [OF this exponent_bounds(2) [OF q0]] have e: "- 1022 \<le> exponent q" by simp
  have "\<bar>q\<bar> \<le> of_int \<bar>a\<bar> / 1"
    unfolding absq using a1 b1 by (intro frac_le) simp_all
  then have qa: "\<bar>q\<bar> < 2 ^ 52" using a2 by simp
  have "(2::rat) ^ 52 \<le> 2 ^ 1023" by (intro power_increasing) simp_all
  with qa have big: "\<bar>q\<bar> < 2 ^ 1023" by linarith
  define x :: rat where "x = of_int (round_half_even (q / 2 powi (exponent q - 52))) * 2 powi (exponent q - 52)"
  from to_double_normal [OF q0 e big]
  have tx: "to_double q = Fin x" and "\<bar>x - q\<bar> \<le> \<bar>q\<bar> / 2 ^ 53"
    by (simp_all add: x_def)
  moreover have "\<bar>q\<bar> / 2 ^ 53 < c"
  proof -
    have "of_int \<bar>a\<bar> / of_int b < (2::rat) ^ 52 / of_int b"
      using a2 bq by (intro divide_strict_right_mono) simp_all
    then have "(of_int \<bar>a\<bar> / of_int b) / 2 ^ 53 < ((2::rat) ^ 52 / of_int b) / 2 ^ 53"
      by (rule divide_strict_right_mono) simp
    then have "\<bar>q\<bar> / 2 ^ 53 < ((2::rat) ^ 52 / of_int b) / 2 ^ 53"
      by (simp only: absq)
    also have "\<dots> = c" using bq by (simp add: c_def field_simps)
    finally show ?thesis .
  qed
  ultimately have err: "\<bar>x - q\<bar> < c" by linarith
  have "\<lfloor>x + 1 / 2\<rfloor> = k"
  proof (cases "r = 0")
    case True
    with qk have qh: "q = of_int (2 * k - 1) / 2" by (simp add: field_simps)
    have "\<bar>(of_int (2 * k - 1) :: rat)\<bar> = 2 * \<bar>q\<bar>" by (simp add: qh)
    also have "\<dots> < 2 ^ 53" using qa by simp
    finally have "(of_int \<bar>2 * k - 1\<bar> :: rat) < of_int (2 ^ 53)" by simp
    then have h: "\<bar>2 * k - 1\<bar> < 2 ^ 53" by (simp only: of_int_less_iff)
    have h0: "2 * k - 1 \<noteq> 0" by presburger
    have "to_double q = Fin q"
      using to_double_half [OF h0 h] by (simp only: qh [symmetric])
    with tx have "x = q" by simp
    moreover from qk True have "q + 1 / 2 = of_int k" by simp
    ultimately show ?thesis by simp
  next
    case False
    with r have "1 \<le> r" by simp
    then have "(of_int 1 :: rat) \<le> of_int r" by (simp only: of_int_le_iff)
    then have "c \<le> of_int r * c" using c by simp
    moreover have "(of_int r :: rat) \<le> of_int (2 * b - 1)" using r(2) by (simp only: of_int_le_iff)
    then have "of_int r * c \<le> of_int (2 * b - 1) * c" using c by (intro mult_right_mono) simp_all
    moreover have "of_int (2 * b - 1) * c = 1 - c" using bq by (simp add: c_def field_simps)
    ultimately have "c \<le> q + 1 / 2 - of_int k" "q + 1 / 2 - of_int k \<le> 1 - c"
      by (simp_all add: qk)
    with err have "of_int k \<le> x + 1 / 2" "x + 1 / 2 < of_int k + 1" by linarith+
    then show ?thesis by (intro floor_unique) simp_all
  qed
  then show ?thesis using tx by (simp add: q_def k_def)
qed

lemma Math_round_js_div_int:
  assumes b: "b \<noteq> 0" "\<bar>b\<bar> < 2 ^ 53" and a: "\<bar>a\<bar> < 2 ^ 52"
  shows "Math_round (js_div a b) = Fin (of_int ((2 * a + b) div (2 * b)))"
proof -
  have "\<bar>a\<bar> < 2 ^ 53" using a by simp
  then have na: "js_number a = Fin (of_int a)"
    unfolding js_number_def by (rule to_double_of_int)
  have nb: "js_number b = Fin (of_int b)"
    unfolding js_number_def using b(2) by (rule to_double_of_int)
  have d: "js_div a b = to_double (of_int a / of_int b)"
    using b(1) by (simp add: js_div_def na nb)
  show ?thesis
  proof (cases "0 < b")
    case True
    from round_of_rounded_quotient [OF True _ a] b(2) show ?thesis by (simp add: d)
  next
    case False
    with b have nb: "0 < - b" "- b < 2 ^ 53" by simp_all
    have na: "\<bar>- a\<bar> < 2 ^ 52" using a by simp
    have q: "(of_int a / of_int b :: rat) = of_int (- a) / of_int (- b)" by simp
    have "(2 * - a + - b) div (2 * - b) = (2 * a + b) div (2 * b)"
      using div_minus_minus [of "2 * a + b" "2 * b"] by (simp add: algebra_simps)
    with round_of_rounded_quotient [OF nb na] show ?thesis by (simp only: d q)
  qed
qed

lemma half_sum_real:
  "b \<noteq> 0 \<Longrightarrow> (of_int a / of_int b :: real) + 1 / 2 = of_int (2 * a + b) / of_int (2 * b)"
  by (simp add: field_simps)

lemma round_quotient_int:
  assumes "b \<noteq> 0"
  shows "round (real_of_int a / real_of_int b) = (2 * a + b) div (2 * b)"
proof -
  have "(of_int a / of_int b :: real) + 1 / 2 = of_int (2 * a + b) / of_int (2 * b)"
    using assms by (rule half_sum_real)
  then have "\<lfloor>(of_int a / of_int b :: real) + 1 / 2\<rfloor> = (2 * a + b) div (2 * b)"
    by (simp only: floor_divide_of_int_eq)
  then show ?thesis by (simp add: round_def)
qed

text \<open>
  Past the exact range the rounding of the quotient shows: a third of 6755399441055745 is
  2251799813685248 and a third, the nearest double is 2251799813685248.5, and
  \<open>Math.round\<close> takes it up.
\<close>

lemma page_count_of_rounded_quotient:
  "Math_round (js_div 6755399441055745 3) = Fin 2251799813685249"
  by code_simp

lemma pageCount_data_ready:
  "pg_pageCount (pagination (final (data_ready this (Response b) st)))
     = Some (Math_round (js_div (body_total b) (body_rowCount b)))"
  by (simp add: data_ready_def parsePagination_def parseRows_def Let_def)

lemma data_after_data_ready: "data (final (data_ready this d st)) = d"
  by (cases d) (simp_all add: data_ready_def parsePagination_def parseRows_def Let_def)

lemma other_params_serialize:
  "other_params (serialize rp) =
     [(''page'', NumParam (page rp)), (''rowCount'', NumParam (rowCount rp))]
     @ (case search rp of None \<Rightarrow> [] | Some s \<Rightarrow> [(''search'', ValParam (Str s))])"
  by (simp add: other_params_def serialize_def split: option.splits)

lemma sort_request_requestParams:
  "i < length (headers st) \<Longrightarrow>
   requestParams (final (sort_request engine i st)) =
     (requestParams st)
       \<lparr>sortColumn := getAttribute (data_column (headers st ! i)),
        sortDirection := (case data_sort (headers st ! i) of
                            None \<Rightarrow> Str DEFAULT_SORT | Some d \<Rightarrow> replacementSorts d)\<rparr>"
  by (simp add: sort_request_def Let_def showLoadingOverlay_def loadData_def setSortHeaders_def
      split: sum.splits selected.splits)

section \<open>The search request\<close>

text \<open>
  C4. Whatever the page and the search term were, handling a search request leaves
  \<open>page\<close> at 1 and \<open>search\<close> at the submitted term, and issues one more GET, whose
  query is that of the new parameters and so carries \<open>page=1\<close> and the term.
\<close>

theorem search_request_resets_page:
  "page (requestParams (search_request term st)) = Fin 1
   \<and> search (requestParams (search_request term st)) = Some term
   \<and> requests (search_request term st)
       = requests st @ [serialize (requestParams (search_request term st))]
   \<and> map_of (last (requests (search_request term st))) ''page'' = Some (NumParam (Fin 1))
   \<and> map_of (last (requests (search_request term st))) ''search'' = Some (ValParam (Str term))"
  by (simp add: search_request_def loadData_def showLoadingOverlay_def serialize_def Let_def)

text \<open>
  C8. The claim: the \<open>search\<close> parameter is in a GET only when the term is not empty.
  The search request does not keep it: on a page opened with \<open>?search=shoes\<close>,
  submitting the emptied search box sends \<open>search=\<close>. The initial request does
  keep it (\<open>loadRequestParams\<close> sets \<open>search\<close> only for a non-empty term): a page
  opened with \<open>?search=\<close> sends no \<open>search\<close> parameter.
\<close>

theorem empty_search_is_sent:
  "last (requests (run no_engine [SearchRequest '''']
       (final (Datagrid no_engine [(''search'', ''shoes'')] []))))
     = [(''page'', NumParam (Fin 1)), (''rowCount'', NumParam (Fin 15)),
        (''search'', ValParam (Str ''''))]
   \<and> requests (final (Datagrid no_engine [(''search'', '''')] []))
     = [[(''page'', NumParam (Fin 1)), (''rowCount'', NumParam (Fin 15))]]"
  by code_simp

section \<open>The page count\<close>

text \<open>
  C5. For every response the page count given to the pagination is
  \<open>Math.round(total / rowCount)\<close> of its body. Whenever \<open>rowCount\<close> is not zero and
  the two numbers are in the range where doubles hold the integers and their
  half-integers exactly (\<open>total\<close> below \<open>2 ^ 52\<close> and \<open>rowCount\<close> below \<open>2 ^ 53\<close>
  in magnitude), that is \<open>total / rowCount\<close> rounded to the nearest integer
  (\<^const>\<open>round\<close> on the reals, a tie going up); 95 rows in pages of 10 give 10 pages, 94
  rows give 9.
\<close>

theorem page_count_rounds:
  "pg_pageCount (pagination (final (data_ready this (Response b) st)))
     = Some (Math_round (js_div (body_total b) (body_rowCount b)))
   \<and> (body_rowCount b \<noteq> 0 \<and> \<bar>body_rowCount b\<bar> < 2 ^ 53 \<and> \<bar>body_total b\<bar> < 2 ^ 52 \<longrightarrow>
      pg_pageCount (pagination (final (data_ready this (Response b) st)))
        = Some (Fin (of_int (round (real_of_int (body_total b) / real_of_int (body_rowCount b))))))
   \<and> pg_pageCount (pagination (final (data_ready this
        (Response \<lparr>current = c, body_rowCount = 10, body_total = 95, rows = rs\<rparr>) st)))
      = Some (Fin 10)
   \<and> pg_pageCount (pagination (final (data_ready this
        (Response \<lparr>current = c, body_rowCount = 10, body_total = 94, rows = rs\<rparr>) st)))
      = Some (Fin 9)"
  by (simp add: pageCount_data_ready Math_round_js_div_int round_quotient_int)

theorem page_count_rounds_witness:
  "body_rowCount \<lparr>current = 1, body_rowCount = 10, body_total = 95, rows = []\<rparr> \<noteq> 0
   \<and> \<bar>body_rowCount \<lparr>current = 1, body_rowCount = 10, body_total = 95, rows = []\<rparr>\<bar> < 2 ^ 53
   \<and> \<bar>body_total \<lparr>current = 1, body_rowCount = 10, body_total = 95, rows = []\<rparr>\<bar> < 2 ^ 52
   \<and> pg_pageCount (pagination (final (data_ready EmitterObj
        (Response \<lparr>current = 1, body_rowCount = 10, body_total = 95, rows = []\<rparr>)
        (final (Datagrid no_engine [] [])))))
      = Some (Fin 10)"
proof -
  let ?b = "\<lparr>current = 1, body_rowCount = 10, body_total = 95, rows = []\<rparr>"
  let ?st = "final (Datagrid no_engine [] [])"
  have nz: "body_rowCount ?b \<noteq> 0" "\<bar>body_rowCount ?b\<bar> < 2 ^ 53" "\<bar>body_total ?b\<bar> < 2 ^ 52"
    by simp_all
  have r: "round (real_of_int (body_total ?b) / real_of_int (body_rowCount ?b)) = 10"
    using round_quotient_int [of 10 95] by simp
  from page_count_rounds [of EmitterObj ?b ?st] nz
  have "pg_pageCount (pagination (final (data_ready EmitterObj (Response ?b) ?st)))
      = Some (Fin (of_int (round (real_of_int (body_total ?b) / real_of_int (body_rowCount ?b)))))"
    by blast
  then have "pg_pageCount (pagination (final (data_ready EmitterObj (Response ?b) ?st)))
      = Some (Fin 10)"
    by (simp only: r) simp
  with nz show ?thesis by blast
qed

text \<open>
  C10. The page count comes from the response body alone: the same body gives the same
  count in any two states of the component, whatever \<open>rowCount\<close> its request
  parameters hold. With 15 rows requested and a body reporting 95 rows in pages of 10 the
  count is 10, where 95 rows in pages of 15 would round to 6.
\<close>

theorem page_count_from_response:
  "pg_pageCount (pagination (final (data_ready this (Response b) st)))
     = pg_pageCount (pagination (final (data_ready this' (Response b) st')))
   \<and> pg_pageCount (pagination (final (data_ready this (Response b)
        (st\<lparr>requestParams := (requestParams st)\<lparr>rowCount := rc\<rparr>\<rparr>))))
      = Some (Math_round (js_div (body_total b) (body_rowCount b)))
   \<and> pg_pageCount (pagination (final (data_ready this
        (Response \<lparr>current = c, body_rowCount = 10, body_total = 95, rows = rs\<rparr>)
        (st\<lparr>requestParams := (requestParams st)\<lparr>rowCount := Fin 15\<rparr>\<rparr>))))
      = Some (Fin 10)
   \<and> Math_round (js_div 95 15) = Fin 6"
  by (simp add: pageCount_data_ready Math_round_js_div_int)

section \<open>A failed fetch\<close>

text \<open>
  C7, as the claim states it: on a transport failure the error object is what the
  \<open>data-ready\<close> listener receives. It is not: with an error and no response the
  listener is given \<open>undefined\<close> and stores that as the data, where a listener given
  the error object would store the error object.
\<close>

theorem callback_drops_error:
  "data (final (end_callback (ErrorObj ''timeout'') PUndefined (final (Datagrid no_engine [] []))))
     = PUndefined
   \<and> data (final (emit_data_ready (ErrorObj ''timeout'') (final (Datagrid no_engine [] []))))
     = ErrorObj ''timeout''"
  by code_simp

text \<open>
  C7, amended. The callback passes its response argument to the \<open>data-ready\<close>
  listener and never looks at the error: two calls that differ in the error only have
  the same outcome, and the data the component holds afterwards is the response argument,
  whether the listener returned or threw.
\<close>

theorem callback_passes_response:
  "end_callback error response st = emit_data_ready response st
   \<and> end_callback error response st = end_callback error' response st
   \<and> data (final (end_callback error response st)) = response"
  by (simp add: end_callback_def emit_data_ready_def data_after_data_ready)

section \<open>The sort request\<close>

text \<open>
  C9. Handling a sort request leaves \<open>page\<close>, \<open>rowCount\<close> and \<open>search\<close> as they
  were, whether the handler returns or throws. When it returns for a header cell of the
  table it has issued one more GET, whose parameters other than the two sort parameters
  are those a GET of the prior state would carry; when it throws it has issued none.
\<close>

theorem sort_request_frame:
  "page (requestParams (final (sort_request engine i st))) = page (requestParams st)
   \<and> rowCount (requestParams (final (sort_request engine i st))) = rowCount (requestParams st)
   \<and> search (requestParams (final (sort_request engine i st))) = search (requestParams st)
   \<and> (case sort_request engine i st of
         Inl (e, st') \<Rightarrow> requests st' = requests st
       | Inr st' \<Rightarrow>
           if i < length (headers st)
           then requests st' = requests st @ [serialize (requestParams st')]
                \<and> other_params (serialize (requestParams st'))
                    = other_params (serialize (requestParams st))
           else st' = st)"
proof (cases "i < length (headers st)")
  case False
  then show ?thesis by (simp add: sort_request_def)
next
  case True
  have rp: "requestParams (final (sort_request engine i st)) =
     (requestParams st)
       \<lparr>sortColumn := getAttribute (data_column (headers st ! i)),
        sortDirection := (case data_sort (headers st ! i) of
                            None \<Rightarrow> Str DEFAULT_SORT | Some d \<Rightarrow> replacementSorts d)\<rparr>"
    using True by (rule sort_request_requestParams)
  have frame:
    "page (requestParams (final (sort_request engine i st))) = page (requestParams st)"
    "rowCount (requestParams (final (sort_request engine i st))) = rowCount (requestParams st)"
    "search (requestParams (final (sort_request engine i st))) = search (requestParams st)"
    by (simp_all add: rp)
  have reload: "(case sort_request engine i st of
         Inl (e, st') \<Rightarrow> requests st' = requests st
       | Inr st' \<Rightarrow>
           requests st' = requests st @ [serialize (requestParams st')]
                \<and> other_params (serialize (requestParams st'))
                    = other_params (serialize (requestParams st)))"
    using True frame
    by (auto simp add: sort_request_def Let_def showLoadingOverlay_def loadData_def
        setSortHeaders_def other_params_serialize split: sum.splits selected.splits)
  show ?thesis using True frame reload by (cases "sort_request engine i st") auto
qed

text \<open>
  The scenario of the specification, on a page opened with \<open>?page=3&search=ann\<close>:
  clicking the header \<open>id\<close> while it shows \<open>asc\<close> reloads with
  \<open>sortDirection=desc\<close> and every other parameter as it was.
\<close>

theorem sort_request_frame_witness:
  "returned (sort_request no_engine 0
       (final (Datagrid no_engine [(''page'', ''3''), (''search'', ''ann'')]
          [\<lparr>data_column = Some ''id'', data_sort = Some ''asc''\<rparr>])))
   \<and> last (requests (final (sort_request no_engine 0
       (final (Datagrid no_engine [(''page'', ''3''), (''search'', ''ann'')]
          [\<lparr>data_column = Some ''id'', data_sort = Some ''asc''\<rparr>])))))
      = [(''page'', NumParam (Fin 3)), (''rowCount'', NumParam (Fin 15)),
         (''sortColumn'', ValParam (Str ''id'')), (''sortDirection'', ValParam (Str ''desc'')),
         (''search'', ValParam (Str ''ann''))]
   \<and> page (requestParams (final (sort_request no_engine 0
       (final (Datagrid no_engine [(''page'', ''3''), (''search'', ''ann'')]
          [\<lparr>data_column = Some ''id'', data_sort = Some ''asc''\<rparr>]))))) = Fin 3"
proof -
  let ?st = "final (Datagrid no_engine [(''page'', ''3''), (''search'', ''ann'')]
          [\<lparr>data_column = Some ''id'', data_sort = Some ''asc''\<rparr>])"
  have a: "page (requestParams ?st) = Fin 3" by code_simp
  have b: "returned (sort_request no_engine 0 ?st)" by code_simp
  have c: "last (requests (final (sort_request no_engine 0 ?st)))
      = [(''page'', NumParam (Fin 3)), (''rowCount'', NumParam (Fin 15)),
         (''sortColumn'', ValParam (Str ''id'')), (''sortDirection'', ValParam (Str ''desc'')),
         (''search'', ValParam (Str ''ann''))]" by code_simp
  show ?thesis using sort_request_frame [of no_engine 0 ?st] a b c by simp
qed

section \<open>The browser history\<close>

text \<open>In no run does a load replace a history entry: every call made is a push.\<close>

lemma history_setSortHeaders: "history (final (setSortHeaders engine st)) = history st"
  by (simp add: setSortHeaders_def Let_def split: sum.splits selected.splits)

lemma history_sort_request: "history (final (sort_request engine i st)) = history st"
  by (simp add: sort_request_def Let_def showLoadingOverlay_def loadData_def setSortHeaders_def
      split: sum.splits selected.splits)

lemma pushes_emit_data_ready:
  "list_all is_push (history st) \<Longrightarrow> list_all is_push (history (final (emit_data_ready d st)))"
  by (cases d)
    (simp_all add: emit_data_ready_def data_ready_def parsePagination_def parseRows_def Let_def)

lemma pushes_handle:
  assumes "list_all is_push (history st)"
  shows "list_all is_push (history (final (handle engine ev st)))"
proof (cases ev)
  case (SortRequest i)
  with assms show ?thesis by (simp add: history_sort_request)
next
  case (PaginationRequest a)
  with assms show ?thesis
    by (simp add: pagination_request_def Let_def showLoadingOverlay_def loadData_def)
next
  case (SearchRequest s)
  with assms show ?thesis
    by (simp add: search_request_def Let_def showLoadingOverlay_def loadData_def)
next
  case (EndCallback e r)
  with assms show ?thesis by (simp add: end_callback_def pushes_emit_data_ready)
qed

lemma pushes_run:
  "list_all is_push (history st) \<Longrightarrow> list_all is_push (history (run engine evs st))"
  by (induction evs arbitrary: st) (simp_all add: pushes_handle)

lemma history_Datagrid: "history (final (Datagrid engine url ths)) = []"
proof -
  have "history (final (setSortHeaders engine
      (showLoadingOverlay (parseSearchbar (initial url ths))))) = []"
    by (simp add: history_setSortHeaders showLoadingOverlay_def parseSearchbar_def initial_def)
  then show ?thesis
    by (cases "setSortHeaders engine (showLoadingOverlay (parseSearchbar (initial url ths)))")
      (auto simp add: Datagrid_def Let_def loadData_def)
qed

lemma replace_never_happens:
  "list_all is_push (history (run engine evs (final (Datagrid engine url ths))))"
  by (rule pushes_run) (simp add: history_Datagrid)

text \<open>
  C1. The claim: the first successful load replaces the current history entry and every
  later one pushes, so a replace happens exactly once. On the code it does not hold. The
  page of the specification's scenario (no URL parameters, one header cell \<open>id\<close> with
  \<open>data-sort="asc"\<close>) is built, its first response arrives, page 2 is requested and
  its response arrives: both loads push. The listener tests \<open>this.firstLoad\<close>, and
  \<open>this\<close> is the emitter. Called on the datagrid instead, the listener would replace on
  both loads, since nothing ever sets \<open>firstLoad\<close> to \<open>false\<close>.
\<close>

theorem first_load_pushes:
  "history (run no_engine
       [EndCallback PNull (Response \<lparr>current = 1, body_rowCount = 15, body_total = 40, rows = []\<rparr>),
        PaginationRequest (Some ''2''),
        EndCallback PNull (Response \<lparr>current = 2, body_rowCount = 15, body_total = 40, rows = []\<rparr>)]
       (final (Datagrid no_engine [] [\<lparr>data_column = Some ''id'', data_sort = Some ''asc''\<rparr>])))
     = [Push \<lparr>page = Fin 1, rowCount = Fin 15, sortColumn = Str ''id'',
              sortDirection = Str ''asc'', search = None\<rparr>,
        Push \<lparr>page = Fin 2, rowCount = Fin 15, sortColumn = Str ''id'',
              sortDirection = Str ''asc'', search = None\<rparr>]
   \<and> history (final (data_ready DatagridObj
        (Response \<lparr>current = 2, body_rowCount = 15, body_total = 40, rows = []\<rparr>)
        (pagination_request (Some ''2'')
          (final (data_ready DatagridObj
            (Response \<lparr>current = 1, body_rowCount = 15, body_total = 40, rows = []\<rparr>)
            (final (Datagrid no_engine []
               [\<lparr>data_column = Some ''id'', data_sort = Some ''asc''\<rparr>])))))))
     = [Replace \<lparr>page = Fin 1, rowCount = Fin 15, sortColumn = Str ''id'',
                 sortDirection = Str ''asc'', search = None\<rparr>,
        Replace \<lparr>page = Fin 2, rowCount = Fin 15, sortColumn = Str ''id'',
                 sortDirection = Str ''asc'', search = None\<rparr>]"
  by code_simp

section \<open>The initial request state\<close>

lemma no_flagged_header:
  "list_all (\<lambda>t. data_sort t = None) ths \<Longrightarrow> query_th_data_sort ths = None"
  by (induction ths) (simp_all add: query_th_data_sort_def)

lemma plain_ident_undefined: "plain_ident ''undefined''"
  by (simp add: ident_start_def ident_char_def)

lemma Datagrid_requestParams:
  "requestParams (final (Datagrid engine url ths)) = loadRequestParams url ths"
  by (simp add: Datagrid_def Let_def initial_def parseSearchbar_def showLoadingOverlay_def
      loadData_def setSortHeaders_def split: sum.splits selected.splits)

lemma setSortHeaders_returns:
  assumes "plain_ident (to_string (sortColumn (requestParams st)))"
  shows "\<exists>st'. setSortHeaders engine st = Inr st' \<and> requestParams st' = requestParams st
           \<and> requests st' = requests st"
  using assms
  by (simp add: setSortHeaders_def query_th_data_column_def Let_def split: option.splits)

lemma Datagrid_undefined_column:
  assumes c: "sortColumn (loadRequestParams url ths) = Undefined"
  shows "\<exists>st. Datagrid engine url ths = Inr st \<and> requestParams st = loadRequestParams url ths
           \<and> requests st = [serialize (loadRequestParams url ths)]"
proof -
  let ?st2 = "showLoadingOverlay (parseSearchbar (initial url ths))"
  have rp: "requestParams ?st2 = loadRequestParams url ths"
    by (simp add: showLoadingOverlay_def parseSearchbar_def initial_def)
  have rq: "requests ?st2 = []"
    by (simp add: showLoadingOverlay_def parseSearchbar_def initial_def)
  have "plain_ident (to_string (sortColumn (requestParams ?st2)))"
    by (simp only: rp c to_string.simps plain_ident_undefined)
  from setSortHeaders_returns [OF this, of engine]
  obtain st' where st': "setSortHeaders engine ?st2 = Inr st'"
    "requestParams st' = requestParams ?st2" "requests st' = requests ?st2"
    by blast
  have "Datagrid engine url ths = Inr (loadData st')"
    using st'(1) by (simp add: Datagrid_def Let_def)
  moreover have "requestParams (loadData st') = loadRequestParams url ths"
    using st'(2) rp by (simp add: loadData_def)
  moreover have "requests (loadData st') = [serialize (loadRequestParams url ths)]"
    using st'(2,3) rp rq by (simp add: loadData_def)
  ultimately show ?thesis by blast
qed

text \<open>
  C6. At initialization every field of the request state follows the precedence of the
  specification (\<^const>\<open>spec_resolve\<close>): \<open>page\<close> and \<open>rowCount\<close> come from the URL,
  else are 1 and 15; \<open>sortColumn\<close> and \<open>sortDirection\<close> come from the URL, else
  from the first header cell that carries \<open>data-sort\<close>, else stay \<open>undefined\<close>;
  \<open>search\<close> is set only from a non-empty URL term. These are the parameters the
  component starts with. With no sort parameter in the URL and no header cell flagged,
  both sort fields are \<open>undefined\<close>, the constructor returns, and its one GET has
  neither \<open>sortColumn\<close> nor \<open>sortDirection\<close>.
\<close>

theorem initial_precedence:
  "page (loadRequestParams url ths)
     = spec_resolve (map_option parseInt (readQueryString url ''page'')) None (Fin 1)
   \<and> rowCount (loadRequestParams url ths)
     = spec_resolve (map_option parseInt (readQueryString url ''rowCount'')) None (Fin 15)
   \<and> sortColumn (loadRequestParams url ths)
     = spec_resolve (map_option Str (readQueryString url ''sortColumn''))
         (map_option (\<lambda>t. getAttribute (data_column t)) (find (\<lambda>t. data_sort t \<noteq> None) ths))
         Undefined
   \<and> sortDirection (loadRequestParams url ths)
     = spec_resolve (map_option Str (readQueryString url ''sortDirection''))
         (map_option (\<lambda>t. getAttribute (data_sort t)) (find (\<lambda>t. data_sort t \<noteq> None) ths))
         Undefined
   \<and> search (loadRequestParams url ths)
     = (case readQueryString url ''search'' of
          None \<Rightarrow> None | Some s \<Rightarrow> if s = [] then None else Some s)
   \<and> requestParams (final (Datagrid engine url ths)) = loadRequestParams url ths
   \<and> (readQueryString url ''sortColumn'' = None \<and> readQueryString url ''sortDirection'' = None
        \<and> list_all (\<lambda>t. data_sort t = None) ths \<longrightarrow>
      sortColumn (loadRequestParams url ths) = Undefined
      \<and> sortDirection (loadRequestParams url ths) = Undefined
      \<and> (\<exists>st. Datagrid engine url ths = Inr st
            \<and> requests st = [serialize (loadRequestParams url ths)]
            \<and> map_of (serialize (loadRequestParams url ths)) ''sortColumn'' = None
            \<and> map_of (serialize (loadRequestParams url ths)) ''sortDirection'' = None))"
proof -
  have fields:
    "page (loadRequestParams url ths)
     = spec_resolve (map_option parseInt (readQueryString url ''page'')) None (Fin 1)"
    "rowCount (loadRequestParams url ths)
     = spec_resolve (map_option parseInt (readQueryString url ''rowCount'')) None (Fin 15)"
    "sortColumn (loadRequestParams url ths)
     = spec_resolve (map_option Str (readQueryString url ''sortColumn''))
         (map_option (\<lambda>t. getAttribute (data_column t)) (find (\<lambda>t. data_sort t \<noteq> None) ths))
         Undefined"
    "sortDirection (loadRequestParams url ths)
     = spec_resolve (map_option Str (readQueryString url ''sortDirection''))
         (map_option (\<lambda>t. getAttribute (data_sort t)) (find (\<lambda>t. data_sort t \<noteq> None) ths))
         Undefined"
    by (simp_all add: loadRequestParams_def Let_def spec_resolve_def getPageNumber_def
        getRowCount_def getSortColumn_def getSortDirection_def query_th_data_sort_def
        DEFAULT_PAGE_def DEFAULT_ROWS_def split: option.splits)
  have none: "sortColumn (loadRequestParams url ths) = Undefined
      \<and> sortDirection (loadRequestParams url ths) = Undefined
      \<and> (\<exists>st. Datagrid engine url ths = Inr st
            \<and> requests st = [serialize (loadRequestParams url ths)]
            \<and> map_of (serialize (loadRequestParams url ths)) ''sortColumn'' = None
            \<and> map_of (serialize (loadRequestParams url ths)) ''sortDirection'' = None)"
    if u: "readQueryString url ''sortColumn'' = None" "readQueryString url ''sortDirection'' = None"
      and h: "list_all (\<lambda>t. data_sort t = None) ths"
  proof -
    have q: "query_th_data_sort ths = None" using h by (rule no_flagged_header)
    have c: "sortColumn (loadRequestParams url ths) = Undefined"
      using u q by (simp add: loadRequestParams_def Let_def getSortColumn_def)
    have d: "sortDirection (loadRequestParams url ths) = Undefined"
      using u q by (simp add: loadRequestParams_def Let_def getSortDirection_def)
    have s: "map_of (serialize (loadRequestParams url ths)) ''sortColumn'' = None"
      "map_of (serialize (loadRequestParams url ths)) ''sortDirection'' = None"
      using c d by (simp_all add: serialize_def split: option.splits)
    from Datagrid_undefined_column [OF c, of engine] c d s show ?thesis by auto
  qed
  have srch: "search (loadRequestParams url ths)
     = (case readQueryString url ''search'' of
          None \<Rightarrow> None | Some s \<Rightarrow> if s = [] then None else Some s)"
    by (simp add: loadRequestParams_def Let_def getSearchTerm_def split: option.splits)
  show ?thesis using fields srch Datagrid_requestParams none by blast
qed

text \<open>
  A page opened with \<open>?page=2\<close> whose only header cell has no \<open>data-sort\<close>:
  the first GET carries \<open>page=2\<close> and \<open>rowCount=15\<close> and nothing else.
\<close>

theorem initial_precedence_witness:
  "readQueryString [(''page'', ''2'')] ''sortColumn'' = None
   \<and> readQueryString [(''page'', ''2'')] ''sortDirection'' = None
   \<and> list_all (\<lambda>t. data_sort t = None) [\<lparr>data_column = Some ''id'', data_sort = None\<rparr>]
   \<and> sortColumn (loadRequestParams [(''page'', ''2'')]
        [\<lparr>data_column = Some ''id'', data_sort = None\<rparr>]) = Undefined
   \<and> sortDirection (loadRequestParams [(''page'', ''2'')]
        [\<lparr>data_column = Some ''id'', data_sort = None\<rparr>]) = Undefined
   \<and> requests (final (Datagrid no_engine [(''page'', ''2'')]
        [\<lparr>data_column = Some ''id'', data_sort = None\<rparr>]))
       = [[(''page'', NumParam (Fin 2)), (''rowCount'', NumParam (Fin 15))]]"
proof -
  let ?url = "[(''page'', ''2'')]"
  let ?ths = "[\<lparr>data_column = Some ''id'', data_sort = None\<rparr>]"
  have a: "readQueryString ?url ''sortColumn'' = None" by code_simp
  have b: "readQueryString ?url ''sortDirection'' = None" by code_simp
  have c: "list_all (\<lambda>t. data_sort t = None) ?ths" by simp
  have r: "requests (final (Datagrid no_engine ?url ?ths))
       = [[(''page'', NumParam (Fin 2)), (''rowCount'', NumParam (Fin 15))]]" by code_simp
  from initial_precedence [of ?url ?ths no_engine] a b c
  have "sortColumn (loadRequestParams ?url ?ths) = Undefined
      \<and> sortDirection (loadRequestParams ?url ?ths) = Undefined" by blast
  then show ?thesis using a b c r by blast
qed

section \<open>The reachable request states\<close>

lemma list_all_update:
  "list_all P xs \<Longrightarrow> P y \<Longrightarrow> list_all P (xs[i := y])"
  using set_update_subset_insert [of xs i y] by (auto simp add: list_all_iff)

lemma asc_desc_text:
  assumes "asc_desc v"
  shows "sort_attr_ok (Some (to_string v))"
proof -
  from assms consider "v = Str ''asc''" | "v = Str ''desc''"
    by (auto simp add: asc_desc_def)
  then show ?thesis
    by cases (simp_all add: sort_attr_ok_def)
qed

lemma replacement_asc_desc:
  assumes "sort_attr_ok a"
  shows "asc_desc (case a of None \<Rightarrow> Str DEFAULT_SORT | Some d \<Rightarrow> replacementSorts d)"
proof -
  from assms consider "a = None" | "a = Some ''asc''" | "a = Some ''desc''"
    by (auto simp add: sort_attr_ok_def)
  then show ?thesis
    by cases (simp_all add: asc_desc_def DEFAULT_SORT_def replacementSorts_def)
qed

lemma setSortHeaders_direction:
  assumes "asc_desc (sortDirection (requestParams st))"
  shows "direction_inv (final (setSortHeaders engine st))"
proof -
  let ?ths = "map (\<lambda>t. t\<lparr>data_sort := None\<rparr>) (headers st)"
  have cleared: "list_all (\<lambda>t. sort_attr_ok (data_sort t)) ?ths"
    by (simp add: list_all_iff sort_attr_ok_def)
  have marked: "list_all (\<lambda>t. sort_attr_ok (data_sort t))
      (?ths[i := (?ths ! i)\<lparr>data_sort := Some (to_string (sortDirection (requestParams st)))\<rparr>])"
    for i
    using cleared assms by (intro list_all_update) (simp_all add: asc_desc_text)
  show ?thesis
    using assms cleared marked
    by (simp add: setSortHeaders_def Let_def direction_inv_def split: sum.splits selected.splits)
qed

lemma loadData_direction: "direction_inv (loadData st) = direction_inv st"
  by (simp add: loadData_def direction_inv_def)

lemma final_loadData_direction:
  "direction_inv (final out) \<Longrightarrow>
   direction_inv (final (case out of Inl x \<Rightarrow> Inl x | Inr st \<Rightarrow> Inr (loadData st)))"
  by (cases out) (auto simp add: loadData_direction)

lemma sort_request_direction:
  assumes "direction_inv st"
  shows "direction_inv (final (sort_request engine i st))"
proof (cases "i < length (headers st)")
  case False
  with assms show ?thesis by (simp add: sort_request_def)
next
  case True
  let ?d = "(case data_sort (headers st ! i) of
                  None \<Rightarrow> Str DEFAULT_SORT | Some d \<Rightarrow> replacementSorts d)"
  let ?st2 = "(showLoadingOverlay st)\<lparr>requestParams := (requestParams (showLoadingOverlay st))
       \<lparr>sortColumn := getAttribute (data_column (headers st ! i)), sortDirection := ?d\<rparr>\<rparr>"
  have "sort_attr_ok (data_sort (headers st ! i))"
    using assms True by (simp add: direction_inv_def list_all_length)
  then have d: "asc_desc ?d" by (rule replacement_asc_desc)
  have "direction_inv (final (setSortHeaders engine ?st2))"
    using d by (intro setSortHeaders_direction) (simp add: showLoadingOverlay_def)
  then have "direction_inv (final (case setSortHeaders engine ?st2 of
       Inl x \<Rightarrow> Inl x | Inr st3 \<Rightarrow> Inr (loadData st3)))"
    by (rule final_loadData_direction)
  then show ?thesis using True by (simp add: sort_request_def Let_def showLoadingOverlay_def)
qed

lemma requestParams_data_ready:
  "requestParams (final (data_ready this d st)) = requestParams st"
  by (cases d) (simp_all add: data_ready_def parsePagination_def parseRows_def Let_def)

lemma headers_data_ready: "headers (final (data_ready this d st)) = headers st"
  by (cases d) (simp_all add: data_ready_def parsePagination_def parseRows_def Let_def)

lemma handle_direction:
  assumes "direction_inv st"
  shows "direction_inv (final (handle engine ev st))"
proof (cases ev)
  case (SortRequest i)
  with assms show ?thesis by (simp add: sort_request_direction)
next
  case (PaginationRequest a)
  with assms show ?thesis
    by (simp add: pagination_request_def Let_def showLoadingOverlay_def loadData_def
        direction_inv_def)
next
  case (SearchRequest s)
  with assms show ?thesis
    by (simp add: search_request_def Let_def showLoadingOverlay_def loadData_def
        direction_inv_def)
next
  case (EndCallback e r)
  with assms show ?thesis
    by (simp add: end_callback_def emit_data_ready_def direction_inv_def
        requestParams_data_ready headers_data_ready)
qed

lemma run_direction:
  "direction_inv st \<Longrightarrow> direction_inv (run engine evs st)"
  by (induction evs arbitrary: st) (simp_all add: handle_direction)

lemma flagged_header_ok:
  "list_all (\<lambda>t. sort_attr_ok (data_sort t)) ths \<Longrightarrow> query_th_data_sort ths = Some t \<Longrightarrow>
   asc_desc (getAttribute (data_sort t))"
  by (induction ths) (auto simp add: query_th_data_sort_def sort_attr_ok_def asc_desc_def
      split: if_splits)

lemma Datagrid_direction:
  assumes dir: "case readQueryString url ''sortDirection'' of
                  None \<Rightarrow> query_th_data_sort ths \<noteq> None
                | Some d \<Rightarrow> d = ''asc'' \<or> d = ''desc''"
    and hdr: "list_all (\<lambda>t. sort_attr_ok (data_sort t)) ths"
  shows "direction_inv (final (Datagrid engine url ths))"
proof -
  let ?st2 = "showLoadingOverlay (parseSearchbar (initial url ths))"
  have rp: "requestParams ?st2 = loadRequestParams url ths"
    by (simp add: showLoadingOverlay_def parseSearchbar_def initial_def)
  have d: "asc_desc (sortDirection (loadRequestParams url ths))"
    using dir flagged_header_ok [OF hdr]
    by (auto simp add: loadRequestParams_def Let_def getSortDirection_def asc_desc_def
        split: option.splits)
  have "direction_inv (final (setSortHeaders engine ?st2))"
    using d by (intro setSortHeaders_direction) (simp add: rp)
  then have "direction_inv (final (case setSortHeaders engine ?st2 of
       Inl x \<Rightarrow> Inl x | Inr st3 \<Rightarrow> Inr (loadData st3)))"
    by (rule final_loadData_direction)
  then show ?thesis by (simp add: Datagrid_def Let_def)
qed

lemma handle_page:
  assumes "pos_int (page (requestParams st))" and "valid_event ev"
  shows "pos_int (page (requestParams (final (handle engine ev st))))"
proof (cases ev)
  case (SortRequest i)
  show ?thesis
  proof (cases "i < length (headers st)")
    case True
    with assms SortRequest show ?thesis by (simp add: sort_request_requestParams)
  next
    case False
    with assms SortRequest show ?thesis by (simp add: sort_request_def)
  qed
next
  case (PaginationRequest a)
  with assms show ?thesis
    by (simp add: pagination_request_def Let_def showLoadingOverlay_def loadData_def)
next
  case (SearchRequest s)
  then show ?thesis
    by (simp add: search_request_def Let_def showLoadingOverlay_def loadData_def)
next
  case (EndCallback e r)
  with assms show ?thesis
    by (simp add: end_callback_def emit_data_ready_def requestParams_data_ready)
qed

lemma run_page:
  "pos_int (page (requestParams st)) \<Longrightarrow> list_all valid_event evs \<Longrightarrow>
   pos_int (page (requestParams (run engine evs st)))"
  by (induction evs arbitrary: st) (simp_all add: handle_page)

lemma Datagrid_page:
  assumes "case readQueryString url ''page'' of None \<Rightarrow> True | Some p \<Rightarrow> pos_int (parseInt p)"
  shows "pos_int (page (requestParams (final (Datagrid engine url ths))))"
  using assms
  by (simp add: Datagrid_requestParams loadRequestParams_def Let_def getPageNumber_def
      DEFAULT_PAGE_def split: option.splits)

text \<open>
  C2, amended. After construction and after any sequence of sort, pagination and search
  requests and responses: \<open>page\<close> is an integer of at least 1, provided that the URL's
  \<open>page\<close> parameter, if present, and the \<open>data-page\<close> of every clicked pagination
  link parse to an integer of at least 1; and \<open>sortDirection\<close> is \<open>asc\<close> or
  \<open>desc\<close>, provided that the page starts with a direction (the URL's \<open>sortDirection\<close>
  parameter is \<open>asc\<close> or \<open>desc\<close>, or it is absent and some header cell carries
  \<open>data-sort\<close>) and that every header cell's \<open>data-sort\<close> is absent, \<open>asc\<close> or
  \<open>desc\<close>.
\<close>

theorem reachable_request_state:
  "((case readQueryString url ''page'' of None \<Rightarrow> True | Some p \<Rightarrow> pos_int (parseInt p))
      \<and> list_all valid_event evs
     \<longrightarrow> pos_int (page (requestParams (run engine evs (final (Datagrid engine url ths))))))
   \<and> ((case readQueryString url ''sortDirection'' of
          None \<Rightarrow> query_th_data_sort ths \<noteq> None
        | Some d \<Rightarrow> d = ''asc'' \<or> d = ''desc'')
      \<and> list_all (\<lambda>t. sort_attr_ok (data_sort t)) ths
     \<longrightarrow> asc_desc (sortDirection (requestParams
            (run engine evs (final (Datagrid engine url ths))))))"
proof (intro conjI impI)
  assume "(case readQueryString url ''page'' of None \<Rightarrow> True | Some p \<Rightarrow> pos_int (parseInt p))
      \<and> list_all valid_event evs"
  then have p: "case readQueryString url ''page'' of None \<Rightarrow> True | Some p \<Rightarrow> pos_int (parseInt p)"
    and e: "list_all valid_event evs" by simp_all
  from p have "pos_int (page (requestParams (final (Datagrid engine url ths))))"
    by (rule Datagrid_page)
  then show "pos_int (page (requestParams (run engine evs (final (Datagrid engine url ths)))))"
    using e by (rule run_page)
next
  assume "(case readQueryString url ''sortDirection'' of
          None \<Rightarrow> query_th_data_sort ths \<noteq> None
        | Some d \<Rightarrow> d = ''asc'' \<or> d = ''desc'')
      \<and> list_all (\<lambda>t. sort_attr_ok (data_sort t)) ths"
  then have d: "case readQueryString url ''sortDirection'' of
          None \<Rightarrow> query_th_data_sort ths \<noteq> None
        | Some d \<Rightarrow> d = ''asc'' \<or> d = ''desc''"
    and h: "list_all (\<lambda>t. sort_attr_ok (data_sort t)) ths" by simp_all
  from d h have "direction_inv (final (Datagrid engine url ths))"
    by (rule Datagrid_direction)
  then have "direction_inv (run engine evs (final (Datagrid engine url ths)))"
    by (rule run_direction)
  then show "asc_desc (sortDirection (requestParams
            (run engine evs (final (Datagrid engine url ths)))))"
    by (simp add: direction_inv_def)
qed

text \<open>
  Two pages with the header cells \<open>id\<close> (\<open>desc\<close>) and \<open>name\<close> (no direction), on
  which the first response arrives, the link to page 3 is clicked, then the header
  \<open>name\<close>, and a search for \<open>ann\<close> is submitted. The first is opened with
  \<open>?page=2&sortDirection=asc\<close>, the second with no parameters, so that its direction
  comes from the header.
\<close>

theorem reachable_request_state_witness:
  "(case readQueryString [(''page'', ''2''), (''sortDirection'', ''asc'')] ''page'' of
      None \<Rightarrow> True | Some p \<Rightarrow> pos_int (parseInt p))
   \<and> (case readQueryString [(''page'', ''2''), (''sortDirection'', ''asc'')] ''sortDirection'' of
      None \<Rightarrow> query_th_data_sort
                 [\<lparr>data_column = Some ''id'', data_sort = Some ''desc''\<rparr>,
                  \<lparr>data_column = Some ''name'', data_sort = None\<rparr>] \<noteq> None
    | Some d \<Rightarrow> d = ''asc'' \<or> d = ''desc'')
   \<and> (case readQueryString [] ''page'' of None \<Rightarrow> True | Some p \<Rightarrow> pos_int (parseInt p))
   \<and> (case readQueryString [] ''sortDirection'' of
      None \<Rightarrow> query_th_data_sort
                 [\<lparr>data_column = Some ''id'', data_sort = Some ''desc''\<rparr>,
                  \<lparr>data_column = Some ''name'', data_sort = None\<rparr>] \<noteq> None
    | Some d \<Rightarrow> d = ''asc'' \<or> d = ''desc'')
   \<and> list_all (\<lambda>t. sort_attr_ok (data_sort t))
        [\<lparr>data_column = Some ''id'', data_sort = Some ''desc''\<rparr>,
         \<lparr>data_column = Some ''name'', data_sort = None\<rparr>]
   \<and> list_all valid_event
        [EndCallback PNull (Response \<lparr>current = 2, body_rowCount = 15, body_total = 95, rows = []\<rparr>),
         PaginationRequest (Some ''3''), SortRequest 1, SearchRequest ''ann'']
   \<and> pos_int (page (requestParams (run no_engine
        [EndCallback PNull (Response \<lparr>current = 2, body_rowCount = 15, body_total = 95, rows = []\<rparr>),
         PaginationRequest (Some ''3''), SortRequest 1, SearchRequest ''ann'']
        (final (Datagrid no_engine [(''page'', ''2''), (''sortDirection'', ''asc'')]
           [\<lparr>data_column = Some ''id'', data_sort = Some ''desc''\<rparr>,
            \<lparr>data_column = Some ''name'', data_sort = None\<rparr>])))))
   \<and> asc_desc (sortDirection (requestParams (run no_engine
        [EndCallback PNull (Response \<lparr>current = 2, body_rowCount = 15, body_total = 95, rows = []\<rparr>),
         PaginationRequest (Some ''3''), SortRequest 1, SearchRequest ''ann'']
        (final (Datagrid no_engine [(''page'', ''2''), (''sortDirection'', ''asc'')]
           [\<lparr>data_column = Some ''id'', data_sort = Some ''desc''\<rparr>,
            \<lparr>data_column = Some ''name'', data_sort = None\<rparr>])))))
   \<and> pos_int (page (requestParams (run no_engine
        [EndCallback PNull (Response \<lparr>current = 2, body_rowCount = 15, body_total = 95, rows = []\<rparr>),
         PaginationRequest (Some ''3''), SortRequest 1, SearchRequest ''ann'']
        (final (Datagrid no_engine []
           [\<lparr>data_column = Some ''id'', data_sort = Some ''desc''\<rparr>,
            \<lparr>data_column = Some ''name'', data_sort = None\<rparr>])))))
   \<and> asc_desc (sortDirection (requestParams (run no_engine
        [EndCallback PNull (Response \<lparr>current = 2, body_rowCount = 15, body_total = 95, rows = []\<rparr>),
         PaginationRequest (Some ''3''), SortRequest 1, SearchRequest ''ann'']
        (final (Datagrid no_engine []
           [\<lparr>data_column = Some ''id'', data_sort = Some ''desc''\<rparr>,
            \<lparr>data_column = Some ''name'', data_sort = None\<rparr>])))))"
proof -
  let ?url = "[(''page'', ''2''), (''sortDirection'', ''asc'')]"
  let ?ths = "[\<lparr>data_column = Some ''id'', data_sort = Some ''desc''\<rparr>,
               \<lparr>data_column = Some ''name'', data_sort = None\<rparr>]"
  let ?evs = "[EndCallback PNull (Response \<lparr>current = 2, body_rowCount = 15, body_total = 95, rows = []\<rparr>),
         PaginationRequest (Some ''3''), SortRequest 1, SearchRequest ''ann'']"
  have p1: "case readQueryString ?url ''page'' of None \<Rightarrow> True | Some p \<Rightarrow> pos_int (parseInt p)"
    by code_simp
  have d1: "case readQueryString ?url ''sortDirection'' of
      None \<Rightarrow> query_th_data_sort ?ths \<noteq> None | Some d \<Rightarrow> d = ''asc'' \<or> d = ''desc''"
    by code_simp
  have p2: "case readQueryString [] ''page'' of None \<Rightarrow> True | Some p \<Rightarrow> pos_int (parseInt p)"
    by code_simp
  have d2: "case readQueryString [] ''sortDirection'' of
      None \<Rightarrow> query_th_data_sort ?ths \<noteq> None | Some d \<Rightarrow> d = ''asc'' \<or> d = ''desc''"
    by code_simp
  have h: "list_all (\<lambda>t. sort_attr_ok (data_sort t)) ?ths" by code_simp
  have e: "list_all valid_event ?evs" by code_simp
  from reachable_request_state [of ?url ?evs no_engine ?ths] p1 d1 h e
  have r1: "pos_int (page (requestParams (run no_engine ?evs (final (Datagrid no_engine ?url ?ths)))))"
    "asc_desc (sortDirection (requestParams
       (run no_engine ?evs (final (Datagrid no_engine ?url ?ths)))))"
    by blast+
  from reachable_request_state [of "[]" ?evs no_engine ?ths] p2 d2 h e
  have r2: "pos_int (page (requestParams (run no_engine ?evs (final (Datagrid no_engine [] ?ths)))))"
    "asc_desc (sortDirection (requestParams
       (run no_engine ?evs (final (Datagrid no_engine [] ?ths)))))"
    by blast+
  show ?thesis using p1 d1 p2 d2 h e r1 r2 by blast
qed

text \<open>
  C2, as the claim states it: in every reachable request state \<open>page\<close> is an integer
  of at least 1 and \<open>sortDirection\<close> is \<open>asc\<close> or \<open>desc\<close>. A page opened with
  \<open>?page=0&sortDirection=up\<close> starts with page 0 and the direction \<open>up\<close>, and a
  page with no URL parameters whose header cell has no \<open>data-sort\<close> starts with no
  direction at all.
\<close>

theorem reachable_request_state_counterexample:
  "\<not> pos_int (page (requestParams
        (final (Datagrid no_engine [(''page'', ''0''), (''sortDirection'', ''up'')] []))))
   \<and> \<not> asc_desc (sortDirection (requestParams
        (final (Datagrid no_engine [(''page'', ''0''), (''sortDirection'', ''up'')] []))))
   \<and> \<not> asc_desc (sortDirection (requestParams
        (final (Datagrid no_engine [] [\<lparr>data_column = Some ''id'', data_sort = None\<rparr>]))))"
  by code_simp

section \<open>Toggling the sort direction\<close>

lemma first_index_bound: "first_index P xs = Some i \<Longrightarrow> i < length xs"
  by (induction xs arbitrary: i) (auto split: if_splits)

lemma first_index_cong_map:
  "map g xs = map g ys \<Longrightarrow>
   first_index (\<lambda>t. g t = v) xs = first_index (\<lambda>t. g t = v) ys"
proof (induction xs arbitrary: ys)
  case Nil
  then show ?case by simp
next
  case (Cons x xs)
  then obtain y ys' where ys: "ys = y # ys'" by (cases ys) auto
  with Cons.prems have "g x = g y" "map g xs = map g ys'" by auto
  with Cons.IH [of ys'] ys show ?case by simp
qed

lemma map_data_column_mark: "map data_column (mark i d ths) = map data_column ths"
proof (rule nth_equalityI)
  show "length (map data_column (mark i d ths)) = length (map data_column ths)"
    by (simp add: mark_def)
next
  fix j
  assume "j < length (map data_column (mark i d ths))"
  then have j: "j < length ths" by (simp add: mark_def)
  show "map data_column (mark i d ths) ! j = map data_column ths ! j"
  proof (cases "j = i")
    case True
    with j show ?thesis by (simp add: mark_def)
  next
    case False
    with j show ?thesis by (simp add: mark_def)
  qed
qed

lemma length_mark: "length (mark i d ths) = length ths"
  by (simp add: mark_def)

lemma data_sort_mark: "i < length ths \<Longrightarrow> data_sort (mark i d ths ! i) = Some d"
  by (simp add: mark_def)

lemma data_column_mark: "i < length ths \<Longrightarrow> data_column (mark i d ths ! i) = data_column (ths ! i)"
  by (simp add: mark_def)

lemma first_index_mark:
  "first_index (\<lambda>t. data_column t = Some c) (mark i d ths)
     = first_index (\<lambda>t. data_column t = Some c) ths"
  by (rule first_index_cong_map) (rule map_data_column_mark)

lemma first_index_cleared:
  "first_index (\<lambda>t. data_column t = Some c) (map (\<lambda>t. t\<lparr>data_sort := None\<rparr>) ths)
     = first_index (\<lambda>t. data_column t = Some c) ths"
  by (rule first_index_cong_map) simp

lemma sort_request_plain:
  assumes i: "i < length (headers st)"
    and c: "data_column (headers st ! i) = Some c"
    and p: "plain_ident c"
    and f: "first_index (\<lambda>t. data_column t = Some c) (headers st) = Some i"
  shows "sortDirection (requestParams (final (sort_request engine i st)))
           = (case data_sort (headers st ! i) of
                None \<Rightarrow> Str DEFAULT_SORT | Some d \<Rightarrow> replacementSorts d)"
    and "headers (final (sort_request engine i st))
           = mark i (to_string (case data_sort (headers st ! i) of
                None \<Rightarrow> Str DEFAULT_SORT | Some d \<Rightarrow> replacementSorts d)) (headers st)"
  using assms
  by (simp_all add: sort_request_def Let_def showLoadingOverlay_def loadData_def
      setSortHeaders_def query_th_data_column_def first_index_cleared mark_def)

lemma first_index_holds: "first_index P xs = Some i \<Longrightarrow> P (xs ! i)"
  by (induction xs arbitrary: i) (auto split: if_splits)

lemma replacementSorts_asc: "replacementSorts ''asc'' = Str ''desc''"
  by (simp add: replacementSorts_def)

lemma replacementSorts_desc: "replacementSorts ''desc'' = Str ''asc''"
  by (simp add: replacementSorts_def)

lemma sort_request_twice:
  assumes p: "plain_ident c"
    and f: "first_index (\<lambda>t. data_column t = Some c) (headers st) = Some i"
  defines "d1 \<equiv> (case data_sort (headers st ! i) of
                None \<Rightarrow> Str DEFAULT_SORT | Some d \<Rightarrow> replacementSorts d)"
  shows "sortDirection (requestParams (final (sort_request engine i st))) = d1"
    and "sortDirection (requestParams
           (final (sort_request engine i (final (sort_request engine i st)))))
         = replacementSorts (to_string d1)"
    and "data_sort (headers
           (final (sort_request engine i (final (sort_request engine i st)))) ! i)
         = Some (to_string (replacementSorts (to_string d1)))"
proof -
  let ?once = "final (sort_request engine i st)"
  let ?twice = "final (sort_request engine i ?once)"
  have i: "i < length (headers st)" using f by (rule first_index_bound)
  have c: "data_column (headers st ! i) = Some c" using f by (rule first_index_holds)
  have h1: "headers ?once = mark i (to_string d1) (headers st)"
    unfolding d1_def using i c p f by (rule sort_request_plain(2))
  show s1: "sortDirection (requestParams ?once) = d1"
    unfolding d1_def using i c p f by (rule sort_request_plain(1))
  have i1: "i < length (headers ?once)" using i by (simp add: h1 length_mark)
  have c1: "data_column (headers ?once ! i) = Some c" using i c by (simp add: h1 data_column_mark)
  have f1: "first_index (\<lambda>t. data_column t = Some c) (headers ?once) = Some i"
    using f by (simp add: h1 first_index_mark)
  have a1: "data_sort (headers ?once ! i) = Some (to_string d1)"
    using i by (simp add: h1 data_sort_mark)
  show "sortDirection (requestParams ?twice) = replacementSorts (to_string d1)"
    using sort_request_plain(1) [OF i1 c1 p f1, of engine] by (simp add: a1)
  have "headers ?twice = mark i (to_string (replacementSorts (to_string d1))) (headers ?once)"
    using sort_request_plain(2) [OF i1 c1 p f1, of engine] by (simp add: a1)
  then show "data_sort (headers ?twice ! i) = Some (to_string (replacementSorts (to_string d1)))"
    using i1 by (simp add: data_sort_mark)
qed

text \<open>
  C3, amended. Take a header cell whose column is a plain identifier and which is the
  first cell with that column. If the cell shows \<open>asc\<close> or \<open>desc\<close>, two sort
  requests on it in succession bring its \<open>data-sort\<close> and the \<open>sortDirection\<close> of
  the request state back to that value. If the cell shows no direction, the first request
  sets the default \<open>desc\<close> and the second \<open>asc\<close>.
\<close>

theorem sort_toggle_twice:
  assumes "plain_ident c"
    and "first_index (\<lambda>t. data_column t = Some c) (headers st) = Some i"
  shows "(data_sort (headers st ! i) = Some ''asc'' \<or> data_sort (headers st ! i) = Some ''desc'' \<longrightarrow>
            data_sort (headers (final (sort_request engine i (final (sort_request engine i st)))) ! i)
              = data_sort (headers st ! i)
            \<and> sortDirection (requestParams
                (final (sort_request engine i (final (sort_request engine i st)))))
              = getAttribute (data_sort (headers st ! i)))
       \<and> (data_sort (headers st ! i) = None \<longrightarrow>
            sortDirection (requestParams (final (sort_request engine i st))) = Str ''desc''
            \<and> sortDirection (requestParams
                (final (sort_request engine i (final (sort_request engine i st)))))
              = Str ''asc'')"
proof (cases "data_sort (headers st ! i)")
  case None
  with sort_request_twice(1,2) [OF assms, of engine] show ?thesis
    by (simp add: DEFAULT_SORT_def replacementSorts_desc)
next
  case (Some d)
  with sort_request_twice(2,3) [OF assms, of engine] show ?thesis
    by (auto simp add: replacementSorts_asc replacementSorts_desc)
qed

text \<open>
  Both cases on the page with the cells \<open>id\<close> (\<open>asc\<close>) and \<open>name\<close> (no
  direction): two clicks on \<open>id\<close> end at \<open>asc\<close> again, two clicks on \<open>name\<close>
  end at \<open>asc\<close>.
\<close>

theorem sort_toggle_twice_witness:
  "plain_ident ''id''
   \<and> first_index (\<lambda>t. data_column t = Some ''id'')
        (headers (final (Datagrid no_engine []
           [\<lparr>data_column = Some ''id'', data_sort = Some ''asc''\<rparr>,
            \<lparr>data_column = Some ''name'', data_sort = None\<rparr>]))) = Some 0
   \<and> data_sort (headers (final (Datagrid no_engine []
           [\<lparr>data_column = Some ''id'', data_sort = Some ''asc''\<rparr>,
            \<lparr>data_column = Some ''name'', data_sort = None\<rparr>])) ! 0) = Some ''asc''
   \<and> sortDirection (requestParams (final (sort_request no_engine 0 (final (sort_request no_engine 0
        (final (Datagrid no_engine []
           [\<lparr>data_column = Some ''id'', data_sort = Some ''asc''\<rparr>,
            \<lparr>data_column = Some ''name'', data_sort = None\<rparr>]))))))) = Str ''asc''
   \<and> plain_ident ''name''
   \<and> first_index (\<lambda>t. data_column t = Some ''name'')
        (headers (final (Datagrid no_engine []
           [\<lparr>data_column = Some ''id'', data_sort = Some ''asc''\<rparr>,
            \<lparr>data_column = Some ''name'', data_sort = None\<rparr>]))) = Some 1
   \<and> data_sort (headers (final (Datagrid no_engine []
           [\<lparr>data_column = Some ''id'', data_sort = Some ''asc''\<rparr>,
            \<lparr>data_column = Some ''name'', data_sort = None\<rparr>])) ! 1) = None
   \<and> sortDirection (requestParams (final (sort_request no_engine 1 (final (sort_request no_engine 1
        (final (Datagrid no_engine []
           [\<lparr>data_column = Some ''id'', data_sort = Some ''asc''\<rparr>,
            \<lparr>data_column = Some ''name'', data_sort = None\<rparr>]))))))) = Str ''asc''"
proof -
  let ?st = "final (Datagrid no_engine []
           [\<lparr>data_column = Some ''id'', data_sort = Some ''asc''\<rparr>,
            \<lparr>data_column = Some ''name'', data_sort = None\<rparr>])"
  have p0: "plain_ident ''id''" by code_simp
  have f0: "first_index (\<lambda>t. data_column t = Some ''id'') (headers ?st) = Some 0" by code_simp
  have a0: "data_sort (headers ?st ! 0) = Some ''asc''" by code_simp
  have p1: "plain_ident ''name''" by code_simp
  have f1: "first_index (\<lambda>t. data_column t = Some ''name'') (headers ?st) = Some 1" by code_simp
  have a1: "data_sort (headers ?st ! 1) = None" by code_simp
  from sort_toggle_twice [OF p0 f0, of no_engine] a0
  have r0: "sortDirection (requestParams (final (sort_request no_engine 0
              (final (sort_request no_engine 0 ?st))))) = Str ''asc''"
    by simp
  from sort_toggle_twice [OF p1 f1, of no_engine] a1
  have r1: "sortDirection (requestParams (final (sort_request no_engine 1
              (final (sort_request no_engine 1 ?st))))) = Str ''asc''"
    by simp
  show ?thesis using p0 f0 a0 r0 p1 f1 a1 r1 by blast
qed

text \<open>
  C3, as the claim states it: for every column two toggles return the direction to what
  it was before the first. On the page with the cells \<open>id\<close> (\<open>desc\<close>) and
  \<open>name\<close> (no direction), where the request state sorts by \<open>id\<close> descending, two
  clicks on \<open>name\<close> leave the direction \<open>asc\<close>: neither the \<open>desc\<close> the
  request state had nor the absent direction the cell had.
\<close>

theorem sort_toggle_absent_not_restored:
  "sortDirection (requestParams (final (Datagrid no_engine []
       [\<lparr>data_column = Some ''id'', data_sort = Some ''desc''\<rparr>,
        \<lparr>data_column = Some ''name'', data_sort = None\<rparr>]))) = Str ''desc''
   \<and> data_sort (headers (final (Datagrid no_engine []
       [\<lparr>data_column = Some ''id'', data_sort = Some ''desc''\<rparr>,
        \<lparr>data_column = Some ''name'', data_sort = None\<rparr>])) ! 1) = None
   \<and> sortDirection (requestParams (run no_engine [SortRequest 1, SortRequest 1]
       (final (Datagrid no_engine []
         [\<lparr>data_column = Some ''id'', data_sort = Some ''desc''\<rparr>,
          \<lparr>data_column = Some ''name'', data_sort = None\<rparr>])))) = Str ''asc''
   \<and> data_sort (headers (run no_engine [SortRequest 1, SortRequest 1]
       (final (Datagrid no_engine []
         [\<lparr>data_column = Some ''id'', data_sort = Some ''desc''\<rparr>,
          \<lparr>data_column = Some ''name'', data_sort = None\<rparr>]))) ! 1) = Some ''asc''"
  by code_simp

end
